theory Spec2Isabelle
  imports Main "HOL-Library.Sublist" "HOL-Library.Char_ord" "HOL-Library.List_Lexorder"
    "HOL-Library.AList" "HOL-Library.Multiset"
begin

section \<open>Strings\<close>

text \<open>
  A Python \<open>str\<close> is modelled by its UTF-8 encoding, a \<open>string\<close> of bytes. Equality,
  concatenation and the substring test on strings are the same on the encodings, and
  the order of strings by code points is the lexicographic order of the encodings.

  \<open>str.lower\<close> depends on the Unicode character database. It is a parameter of every
  function that calls it, named \<open>lower\<close>: the function on encodings that \<open>str.lower\<close>
  induces. \<open>ascii_lower\<close> is \<open>str.lower\<close> on strings of ASCII characters, which is
  what the scenarios of this theory use: the capital letters have the codes 65 to 90,
  and setting bit 5 of such a code adds 32 to it.
\<close>

definition ascii_lower_chr :: "char \<Rightarrow> char" where
  "ascii_lower_chr c =
     (let n = (of_char c :: nat) in
      if 65 \<le> n \<and> n \<le> 90
      then (case c of Char b0 b1 b2 b3 b4 b5 b6 b7 \<Rightarrow> Char b0 b1 b2 b3 b4 True b6 b7)
      else c)"

definition ascii_lower :: "string \<Rightarrow> string" where
  "ascii_lower s = map ascii_lower_chr s"

text \<open>\<open>starts_with s t\<close> is Python's \<open>s.startswith(t)\<close>.\<close>

fun starts_with :: "string \<Rightarrow> string \<Rightarrow> bool" where
  "starts_with s [] = True"
| "starts_with [] (c # t) = False"
| "starts_with (d # s) (c # t) = (d = c \<and> starts_with s t)"

text \<open>\<open>py_in t s\<close> is Python's \<open>t in s\<close> on strings: a scan for the first position
  of \<open>s\<close> at which \<open>t\<close> starts.\<close>

fun py_in :: "string \<Rightarrow> string \<Rightarrow> bool" where
  "py_in t [] = (t = [])"
| "py_in t (d # s) = (starts_with (d # s) t \<or> py_in t s)"

section \<open>Shell patterns: \<open>fnmatch.fnmatch\<close>\<close>

text \<open>
  The assistant selects directory entries with the standard library's
  \<open>fnmatch.fnmatch(name, pattern)\<close>, which works on the characters (code points) of
  its arguments. \<open>decode\<close> turns an encoding into the list of its code points: one,
  two, three or four bytes make a character, and a byte that does not start such a
  group counts as one character of its own, with the code that Python gives to a
  byte of a file name that it cannot decode.
\<close>

definition continuation :: "char \<Rightarrow> bool" where
  "continuation b = (128 \<le> (of_char b :: nat) \<and> (of_char b :: nat) < 192)"

definition low6 :: "char \<Rightarrow> nat" where
  "low6 b = of_char b - 128"

fun decode :: "string \<Rightarrow> nat list" where
  "decode [] = []"
| "decode (b # bs) =
     (let n = (of_char b :: nat) in
      if n < 128 then n # decode bs
      else if 192 \<le> n \<and> n < 224 \<and> length bs \<ge> 1 \<and> continuation (bs ! 0) then
        ((n - 192) * 64 + low6 (bs ! 0)) # decode (drop 1 bs)
      else if 224 \<le> n \<and> n < 240 \<and> length bs \<ge> 2 \<and> continuation (bs ! 0)
              \<and> continuation (bs ! 1) then
        ((n - 224) * 4096 + low6 (bs ! 0) * 64 + low6 (bs ! 1)) # decode (drop 2 bs)
      else if 240 \<le> n \<and> n < 248 \<and> length bs \<ge> 3 \<and> continuation (bs ! 0)
              \<and> continuation (bs ! 1) \<and> continuation (bs ! 2) then
        ((n - 240) * 262144 + low6 (bs ! 0) * 4096 + low6 (bs ! 1) * 64 + low6 (bs ! 2))
          # decode (drop 3 bs)
      else (56320 + n) # decode bs)"

text \<open>
  On POSIX \<open>os.path.normcase\<close> is the identity, so the match is case-sensitive; the
  library compiles the pattern (\<open>translate\<close>) and matches the whole name against the
  result.

  \<^item> \<open>*\<close> matches any run of characters, \<open>?\<close> one character;
  \<^item> \<open>[seq]\<close> matches one character of \<open>seq\<close>, \<open>[!seq]\<close> one character not in it;
    a \<open>]\<close> directly after \<open>[\<close> or \<open>[!\<close> belongs to \<open>seq\<close>; \<open>a-b\<close> inside \<open>seq\<close> is
    a range, and a range whose bounds are in the wrong order contributes nothing;
  \<^item> a \<open>[\<close> with no closing \<open>]\<close> is an ordinary character.

  The library also merges a run of stars into one, which matches the same names.
  \<open>ord c\<close> is the code point of an ASCII character.
\<close>

definition ord :: "char \<Rightarrow> nat" where
  "ord c = of_char c"

datatype glob_token = Star | AnyChar | Lit nat | CharSet bool "(nat \<times> nat) list"

fun strip_one :: "nat \<Rightarrow> nat list \<Rightarrow> nat list \<times> nat list" where
  "strip_one c [] = ([], [])"
| "strip_one c (d # s) = (if d = c then ([d], s) else ([], d # s))"

text \<open>\<open>split_bracket p\<close> looks for the end of a bracket expression in the text \<open>p\<close> that
  follows a \<open>[\<close>: the result is the text between the brackets and the text after the
  closing bracket, or \<open>None\<close> when the bracket is never closed.\<close>

definition split_bracket :: "nat list \<Rightarrow> (nat list \<times> nat list) option" where
  "split_bracket p =
     (let (neg, p1) = strip_one (ord CHR ''!'') p;
          (fst_close, p2) = strip_one (ord CHR '']'') p1;
          body = takeWhile (\<lambda>c. c \<noteq> ord CHR '']'') p2;
          r = dropWhile (\<lambda>c. c \<noteq> ord CHR '']'') p2
      in if r = [] then None else Some (neg @ fst_close @ body, tl r))"

fun class_ranges :: "nat list \<Rightarrow> (nat \<times> nat) list" where
  "class_ranges (a # m # b # cs) =
     (if m = ord CHR ''-'' then (a, b) # class_ranges cs
      else (a, a) # class_ranges (m # b # cs))"
| "class_ranges (a # cs) = (a, a) # class_ranges cs"
| "class_ranges [] = []"

definition char_set :: "nat list \<Rightarrow> glob_token" where
  "char_set stuff =
     (if stuff \<noteq> [] \<and> hd stuff = ord CHR ''!'' then CharSet True (class_ranges (tl stuff))
      else CharSet False (class_ranges stuff))"

function translate :: "nat list \<Rightarrow> glob_token list" where
  "translate [] = []"
| "translate (c # p) =
     (if c = ord CHR ''*'' then Star # translate p
      else if c = ord CHR ''?'' then AnyChar # translate p
      else if c = ord CHR ''['' then
        (case split_bracket p of
           None \<Rightarrow> Lit c # translate p
         | Some (stuff, rest) \<Rightarrow> char_set stuff # translate rest)
      else Lit c # translate p)"
  by pat_completeness auto
termination
proof (relation "measure length")
  fix c :: nat and p stuff rest :: "nat list" and x
  assume a: "split_bracket p = Some x" "(stuff, rest) = x"
  have s: "length (snd (strip_one d s)) \<le> length s" for d s
    by (cases s) auto
  define p2 where "p2 = snd (strip_one (ord CHR '']'') (snd (strip_one (ord CHR ''!'') p)))"
  from a have r: "rest = tl (dropWhile (\<lambda>c. c \<noteq> ord CHR '']'') p2)"
    unfolding split_bracket_def Let_def p2_def
    by (auto simp add: case_prod_beta split: if_splits)
  have "length p2 \<le> length p"
    unfolding p2_def
    using s [of "ord CHR '']''" "snd (strip_one (ord CHR ''!'') p)"] s [of "ord CHR ''!''" p]
    by linarith
  moreover have "length (dropWhile (\<lambda>c. c \<noteq> ord CHR '']'') p2) \<le> length p2"
    by (rule length_dropWhile_le)
  ultimately show "(rest, c # p) \<in> measure length"
    using r by simp
qed simp_all

definition in_ranges :: "nat \<Rightarrow> (nat \<times> nat) list \<Rightarrow> bool" where
  "in_ranges x rs = list_ex (\<lambda>(lo, hi). lo \<le> x \<and> x \<le> hi) rs"

fun tok_match :: "glob_token list \<Rightarrow> nat list \<Rightarrow> bool" where
  "tok_match [] s = (s = [])"
| "tok_match (Star # ts) [] = tok_match ts []"
| "tok_match (Star # ts) (x # s) = (tok_match ts (x # s) \<or> tok_match (Star # ts) s)"
| "tok_match (AnyChar # ts) [] = False"
| "tok_match (AnyChar # ts) (x # s) = tok_match ts s"
| "tok_match (Lit c # ts) [] = False"
| "tok_match (Lit c # ts) (x # s) = (x = c \<and> tok_match ts s)"
| "tok_match (CharSet neg rs # ts) [] = False"
| "tok_match (CharSet neg rs # ts) (x # s) = (in_ranges x rs \<noteq> neg \<and> tok_match ts s)"

definition fnmatch :: "string \<Rightarrow> string \<Rightarrow> bool" where
  "fnmatch name pat = tok_match (translate (decode pat)) (decode name)"

section \<open>The file panel\<close>

text \<open>
  An absolute, normalised path is the list of its components; the root is \<open>[]\<close>.
  Names are single components.
\<close>

type_synonym path = "string list"

definition join :: "path \<Rightarrow> string \<Rightarrow> path" where
  "join d name = d @ [name]"

definition dirname :: "path \<Rightarrow> path" where
  "dirname p = butlast p"

definition basename :: "path \<Rightarrow> string" where
  "basename p = (if p = [] then [] else last p)"

text \<open>A list item of the panel: its displayed text, the path kept in its user role,
  and whether it carries the folder icon.\<close>

record item =
  item_text :: string
  user_role :: path
  folder_icon :: bool

text \<open>
  \<open>FilePanel.filter_files\<close>: the search box filters the cached items \<open>all_items\<close>.
  An empty search text shows the whole cache; otherwise an item is shown when the
  lower-cased search text occurs in its lower-cased display text or in the lower-cased
  base name of its path. The path of an item is never \<open>None\<close> or the empty string
  (the root is \<open>/\<close>), so the base name is always taken.
\<close>

definition filter_files ::
  "(string \<Rightarrow> string) \<Rightarrow> string \<Rightarrow> item list \<Rightarrow> item list" where
  "filter_files lower search_input all_items =
     (let search_text = lower search_input in
      if search_text = [] then all_items
      else filter (\<lambda>it.
             let shown = lower (item_text it);
                 file_path = user_role it;
                 file_name = lower (basename file_path)
             in py_in search_text shown \<or> py_in search_text file_name) all_items)"

text \<open>
  What the panel reads from the operating system while it loads a directory: the result
  of \<open>os.listdir\<close> on the current path (\<open>None\<close> when it raises), and for a path
  \<open>os.path.isdir\<close>, \<open>os.path.getsize\<close> and \<open>os.path.getmtime\<close> (\<open>None\<close> when the
  call raises, for instance because the file has been removed in the meantime). Time
  stamps are integers in a fixed unit.
\<close>

record stat_env =
  listdir_result :: "string list option"
  isdir :: "path \<Rightarrow> bool"
  getsize :: "path \<Rightarrow> nat option"
  getmtime :: "path \<Rightarrow> int option"

datatype sort_mode = name_asc | name_desc | size_asc | size_desc | date_asc | date_desc

text \<open>Python's \<open>sorted(xs, key=k, reverse=r)\<close>: a stable sort; with \<open>reverse\<close> the
  list is reversed before and after sorting, which keeps equal keys in their order.\<close>

definition sorted_py :: "('a \<Rightarrow> 'k::linorder) \<Rightarrow> bool \<Rightarrow> 'a list \<Rightarrow> 'a list" where
  "sorted_py k reverse xs = (if reverse then rev (sort_key k (rev xs)) else sort_key k xs)"

definition get_size :: "stat_env \<Rightarrow> path \<Rightarrow> string \<Rightarrow> nat" where
  "get_size env current_path name =
     (case getsize env (join current_path name) of Some n \<Rightarrow> n | None \<Rightarrow> 0)"

definition get_mtime :: "stat_env \<Rightarrow> path \<Rightarrow> string \<Rightarrow> int" where
  "get_mtime env current_path name =
     (case getmtime env (join current_path name) of Some t \<Rightarrow> t | None \<Rightarrow> 0)"

text \<open>\<open>FilePanel.sort_entries\<close>.\<close>

definition sort_entries ::
  "(string \<Rightarrow> string) \<Rightarrow> sort_mode \<Rightarrow> stat_env \<Rightarrow> path \<Rightarrow> string list \<Rightarrow> bool
     \<Rightarrow> string list" where
  "sort_entries lower mode env current_path entries is_dir =
     (if mode = name_asc then sorted_py lower False entries
      else if mode = name_desc then sorted_py lower True entries
      else if mode = size_asc \<or> mode = size_desc then
        (if is_dir then sorted_py lower False entries
         else sorted_py (get_size env current_path) (mode = size_desc) entries)
      else sorted_py (get_mtime env current_path) (mode = date_desc) entries)"

text \<open>
  \<open>FilePanel.load_directory\<close>, as the list of items it leaves in the panel and in the
  search cache. \<open>format_size\<close> renders a size for display and is a parameter. When
  \<open>os.listdir\<close> raises, the load stops after the parent item.
\<close>

definition parent_item :: "path \<Rightarrow> item" where
  "parent_item current_path =
     \<lparr>item_text = ''..'', user_role = dirname current_path, folder_icon = True\<rparr>"

definition dir_item :: "path \<Rightarrow> string \<Rightarrow> item" where
  "dir_item current_path dir_name =
     \<lparr>item_text = dir_name, user_role = join current_path dir_name, folder_icon = True\<rparr>"

definition file_item :: "(nat \<Rightarrow> string) \<Rightarrow> stat_env \<Rightarrow> path \<Rightarrow> string \<Rightarrow> item" where
  "file_item format_size env current_path file_name =
     (let full_path = join current_path file_name in
      case getsize env full_path of
        Some sz \<Rightarrow> \<lparr>item_text = file_name @ '' ('' @ format_size sz @ '')'',
                       user_role = full_path, folder_icon = False\<rparr>
      | None \<Rightarrow> \<lparr>item_text = file_name, user_role = full_path, folder_icon = False\<rparr>)"

definition load_directory ::
  "(string \<Rightarrow> string) \<Rightarrow> sort_mode \<Rightarrow> (nat \<Rightarrow> string) \<Rightarrow> stat_env \<Rightarrow> path
     \<Rightarrow> item list" where
  "load_directory lower mode format_size env current_path =
     (let parent = (if dirname current_path \<noteq> current_path
                    then [parent_item current_path] else [])
      in case listdir_result env of
           None \<Rightarrow> parent
         | Some entries \<Rightarrow>
             (let dirs = filter (\<lambda>entry. isdir env (join current_path entry)) entries;
                  files = filter (\<lambda>entry. \<not> isdir env (join current_path entry)) entries;
                  dirs = sort_entries lower mode env current_path dirs True;
                  files = sort_entries lower mode env current_path files False
              in parent @ map (dir_item current_path) dirs
                   @ map (file_item format_size env current_path) files))"

text \<open>The items of a loaded panel without the parent item.\<close>

definition listed :: "path \<Rightarrow> item list \<Rightarrow> item list" where
  "listed cur items = (if dirname cur \<noteq> cur then tl items else items)"

section \<open>Exceptions\<close>

datatype operation = Copy | Move | Delete

datatype os_error =
    PermissionError | FileNotFoundError | FileExistsError | IsADirectoryError
  | NotADirectoryError | SameFileError | DestinationExists | OtherOSError

text \<open>
  The exceptions that reach \<open>execute\<close> and \<open>on_response\<close>, one constructor for each
  message the code builds:
  \<^item> \<open>Raised e\<close>: an exception of a library call, passed on as it is;
  \<^item> \<open>SeveralFiles op\<close>: the \<open>ValueError\<close> of the check for several file names;
  \<^item> \<open>ItemFailed op item e\<close>: the \<open>Exception\<close> that names the item and the cause;
  \<^item> \<open>NoMatch pattern\<close>: the \<open>Exception\<close> for a pattern that selected nothing;
  \<^item> \<open>NamesMissing\<close>, \<open>NotFound name\<close>, \<open>AlreadyExists name\<close>: raised by \<open>do_rename\<close>;
  \<^item> \<open>KeyError k\<close>: a missing key of the command; \<open>DecodeError\<close>: the answer is not
    JSON.
\<close>

datatype exn =
    Raised os_error
  | SeveralFiles operation
  | ItemFailed operation string os_error
  | NoMatch string
  | NamesMissing
  | NotFound string
  | AlreadyExists string
  | KeyError string
  | DecodeError

section \<open>The chat history\<close>

text \<open>
  The table \<open>chat_history\<close>. Its key is \<open>INTEGER PRIMARY KEY AUTOINCREMENT\<close>: a new row
  gets an id above every id the table has ever used, which \<open>last_id\<close> records. The
  rows are kept in the order of their insertion.
\<close>

datatype status = pending | success | error

type_synonym params = "string \<rightharpoonup> string"

text \<open>The text of an error column: the answer of a failed request, or \<open>str(e)\<close>.\<close>

datatype error_text = Answer string | Str exn

record row =
  row_id :: nat
  timestamp :: string
  user_message :: string
  ai_response :: "string option"
  row_action :: "string option"
  row_params :: "params option"
  row_status :: status
  error_message :: "error_text option"

record database =
  rows :: "row list"
  last_id :: nat

definition init_database :: database where
  "init_database = \<lparr>rows = [], last_id = 0\<rparr>"

text \<open>\<open>ChatDatabase.add_message\<close> with its default arguments, as \<open>send\<close> calls it;
  the time stamp is an argument. The result is the new table and \<open>lastrowid\<close>.\<close>

definition add_message :: "database \<Rightarrow> string \<Rightarrow> string \<Rightarrow> database \<times> nat" where
  "add_message db now msg =
     (let message_id = last_id db + 1;
          r = \<lparr>row_id = message_id, timestamp = now, user_message = msg,
               ai_response = None, row_action = None, row_params = None,
               row_status = pending, error_message = None\<rparr>
      in (\<lparr>rows = rows db @ [r], last_id = message_id\<rparr>, message_id))"

text \<open>\<open>ChatDatabase.update_message\<close>: the arguments that are not \<open>None\<close> are written
  to the row with the given id.\<close>

record update_args =
  new_ai_response :: "string option"
  new_action :: "string option"
  new_params :: "params option"
  new_status :: "status option"
  new_error_message :: "error_text option"

definition no_update :: update_args where
  "no_update = \<lparr>new_ai_response = None, new_action = None, new_params = None,
                 new_status = None, new_error_message = None\<rparr>"

definition update_row :: "update_args \<Rightarrow> row \<Rightarrow> row" where
  "update_row u r =
     r\<lparr>ai_response := (case new_ai_response u of None \<Rightarrow> ai_response r | Some v \<Rightarrow> Some v),
       row_action := (case new_action u of None \<Rightarrow> row_action r | Some v \<Rightarrow> Some v),
       row_params := (case new_params u of None \<Rightarrow> row_params r | Some v \<Rightarrow> Some v),
       row_status := (case new_status u of None \<Rightarrow> row_status r | Some v \<Rightarrow> v),
       error_message :=
         (case new_error_message u of None \<Rightarrow> error_message r | Some v \<Rightarrow> Some v)\<rparr>"

definition update_message :: "database \<Rightarrow> nat \<Rightarrow> update_args \<Rightarrow> database" where
  "update_message db message_id u =
     db\<lparr>rows := map (\<lambda>r. if row_id r = message_id then update_row u r else r) (rows db)\<rparr>"

text \<open>SQL \<open>LIMIT\<close>: a negative limit means no limit.\<close>

definition limit :: "int \<Rightarrow> 'a list \<Rightarrow> 'a list" where
  "limit cnt xs = (if cnt < 0 then xs else take (nat cnt) xs)"

text \<open>\<open>ChatDatabase.get_recent_history\<close>: \<open>ORDER BY id DESC LIMIT ?\<close> with the
  argument \<open>count\<close>, here \<open>cnt\<close>, and the result reversed.\<close>

definition get_recent_history :: "database \<Rightarrow> int \<Rightarrow> row list" where
  "get_recent_history db cnt =
     (let fetched = limit cnt (rev (sort_key row_id (rows db)))
      in rev fetched)"

definition clear_history :: "database \<Rightarrow> database" where
  "clear_history db = db\<lparr>rows := []\<rparr>"

text \<open>A history of calls on the store, and the table they leave.\<close>

datatype db_call = AddMessage string string | UpdateMessage nat update_args | ClearHistory

fun run_call :: "database \<Rightarrow> db_call \<Rightarrow> database" where
  "run_call db (AddMessage now msg) = fst (add_message db now msg)"
| "run_call db (UpdateMessage message_id u) = update_message db message_id u"
| "run_call db ClearHistory = clear_history db"

definition run_calls :: "db_call list \<Rightarrow> database" where
  "run_calls calls = foldl run_call init_database calls"

text \<open>The ids of the rows increase along the table and stay below \<open>last_id\<close>.\<close>

definition db_ok :: "database \<Rightarrow> bool" where
  "db_ok d =
     (sorted_wrt (<) (map row_id (rows d)) \<and> list_all (\<lambda>r. row_id r \<le> last_id d) (rows d))"

section \<open>The operations of the assistant\<close>

text \<open>
  The library calls that read or change the file system are parameters of the model:
  a record of functions on a file-system state \<open>'fs\<close>. A call that changes the file
  system returns the state it leaves and the exception it raises, if any.
  \<open>os_makedirs\<close> stands for \<open>os.makedirs(path, exist_ok=True)\<close> and \<open>copytree\<close> for
  \<open>shutil.copytree(src, dst, dirs_exist_ok=True)\<close>; \<open>write_text\<close> stands for opening
  the path with mode \<open>'w'\<close> and writing the content. The last field is \<open>str.lower\<close>.
\<close>

record 'fs os =
  os_listdir :: "'fs \<Rightarrow> path \<Rightarrow> os_error + string list"
  os_isdir :: "'fs \<Rightarrow> path \<Rightarrow> bool"
  os_exists :: "'fs \<Rightarrow> path \<Rightarrow> bool"
  copy2 :: "'fs \<Rightarrow> path \<Rightarrow> path \<Rightarrow> 'fs \<times> os_error option"
  copytree :: "'fs \<Rightarrow> path \<Rightarrow> path \<Rightarrow> 'fs \<times> os_error option"
  move :: "'fs \<Rightarrow> path \<Rightarrow> path \<Rightarrow> 'fs \<times> os_error option"
  os_remove :: "'fs \<Rightarrow> path \<Rightarrow> 'fs \<times> os_error option"
  rmtree :: "'fs \<Rightarrow> path \<Rightarrow> 'fs \<times> os_error option"
  os_makedirs :: "'fs \<Rightarrow> path \<Rightarrow> 'fs \<times> os_error option"
  write_text :: "'fs \<Rightarrow> path \<Rightarrow> string \<Rightarrow> 'fs \<times> os_error option"
  os_rename :: "'fs \<Rightarrow> path \<Rightarrow> path \<Rightarrow> 'fs \<times> os_error option"
  str_lower :: "string \<Rightarrow> string"

datatype side = Left | Right

text \<open>The main window: the current paths of the two panels and the active one.\<close>

record main_window =
  left_panel :: path
  right_panel :: path
  active_panel :: side

definition active_path :: "main_window \<Rightarrow> path" where
  "active_path mw = (case active_panel mw of Left \<Rightarrow> left_panel mw | Right \<Rightarrow> right_panel mw)"

text \<open>\<open>p.get(key, default)\<close>.\<close>

definition get_or :: "params \<Rightarrow> string \<Rightarrow> string \<Rightarrow> string" where
  "get_or p key dflt = (case p key of Some v \<Rightarrow> v | None \<Rightarrow> dflt)"

text \<open>The check of \<open>do_copy\<close>, \<open>do_move\<close> and \<open>do_delete\<close> for several file names in
  one pattern: a comma, or one of the words \<open>and\<close> and its Russian counterpart (the
  letter U+0438, here in UTF-8) between spaces, in any case.\<close>

definition cyrillic_and :: string where
  "cyrillic_and = [CHR 0x20, CHR 0xD0, CHR 0xB8, CHR 0x20]"

definition several_files :: "(string \<Rightarrow> string) \<Rightarrow> string \<Rightarrow> bool" where
  "several_files lower pattern =
     (py_in '','' pattern \<or> py_in cyrillic_and (lower pattern)
      \<or> py_in '' and '' (lower pattern))"

text \<open>The panels that the parameters \<open>from\<close> and \<open>to\<close> select, by their paths:
  \<open>left_panel if p.get('from') == 'left' else right_panel\<close> and
  \<open>right_panel if p.get('to') == 'right' else left_panel\<close>.\<close>

definition from_panel :: "main_window \<Rightarrow> params \<Rightarrow> path" where
  "from_panel mw p = (if p ''from'' = Some ''left'' then left_panel mw else right_panel mw)"

definition to_panel :: "main_window \<Rightarrow> params \<Rightarrow> path" where
  "to_panel mw p = (if p ''to'' = Some ''right'' then right_panel mw else left_panel mw)"

text \<open>The body of the \<open>try\<close> block of \<open>do_copy\<close> for one item.\<close>

definition copy_item :: "'fs os \<Rightarrow> 'fs \<Rightarrow> path \<Rightarrow> path \<Rightarrow> 'fs \<times> os_error option" where
  "copy_item os fs src dst =
     (if os_isdir os fs src then copytree os fs src dst else copy2 os fs src dst)"

fun copy_loop ::
  "'fs os \<Rightarrow> path \<Rightarrow> path \<Rightarrow> string \<Rightarrow> string list \<Rightarrow> 'fs \<Rightarrow> nat \<Rightarrow> 'fs \<times> (exn + nat)" where
  "copy_loop os from_path to_path pattern [] fs copied_count = (fs, Inr copied_count)"
| "copy_loop os from_path to_path pattern (item # rest) fs copied_count =
     (if fnmatch item pattern then
        (let src = join from_path item;
             dst = join to_path item
         in case copy_item os fs src dst of
              (fs', None) \<Rightarrow> copy_loop os from_path to_path pattern rest fs' (copied_count + 1)
            | (fs', Some e) \<Rightarrow> (fs', Inl (ItemFailed Copy item e)))
      else copy_loop os from_path to_path pattern rest fs copied_count)"

text \<open>\<open>AIDialog.do_copy\<close>.\<close>

definition do_copy :: "'fs os \<Rightarrow> main_window \<Rightarrow> params \<Rightarrow> 'fs \<Rightarrow> 'fs \<times> exn option" where
  "do_copy os mw p fs =
     (let from_path = from_panel mw p;
          to_path = to_panel mw p;
          pattern = get_or p ''pattern'' ''*''
      in if several_files (str_lower os) pattern then (fs, Some (SeveralFiles Copy))
         else case os_listdir os fs from_path of
                Inl e \<Rightarrow> (fs, Some (Raised e))
              | Inr items \<Rightarrow>
                  (case copy_loop os from_path to_path pattern items fs 0 of
                     (fs', Inl e) \<Rightarrow> (fs', Some e)
                   | (fs', Inr copied_count) \<Rightarrow>
                       if copied_count = 0 then (fs', Some (NoMatch pattern)) else (fs', None)))"

fun move_loop ::
  "'fs os \<Rightarrow> path \<Rightarrow> path \<Rightarrow> string \<Rightarrow> string list \<Rightarrow> 'fs \<Rightarrow> nat \<Rightarrow> 'fs \<times> (exn + nat)" where
  "move_loop os from_path to_path pattern [] fs moved_count = (fs, Inr moved_count)"
| "move_loop os from_path to_path pattern (item # rest) fs moved_count =
     (if fnmatch item pattern then
        (let src = join from_path item;
             dst = join to_path item
         in case move os fs src dst of
              (fs', None) \<Rightarrow> move_loop os from_path to_path pattern rest fs' (moved_count + 1)
            | (fs', Some e) \<Rightarrow> (fs', Inl (ItemFailed Move item e)))
      else move_loop os from_path to_path pattern rest fs moved_count)"

text \<open>\<open>AIDialog.do_move\<close>.\<close>

definition do_move :: "'fs os \<Rightarrow> main_window \<Rightarrow> params \<Rightarrow> 'fs \<Rightarrow> 'fs \<times> exn option" where
  "do_move os mw p fs =
     (let from_path = from_panel mw p;
          to_path = to_panel mw p;
          pattern = get_or p ''pattern'' ''*''
      in if several_files (str_lower os) pattern then (fs, Some (SeveralFiles Move))
         else case os_listdir os fs from_path of
                Inl e \<Rightarrow> (fs, Some (Raised e))
              | Inr items \<Rightarrow>
                  (case move_loop os from_path to_path pattern items fs 0 of
                     (fs', Inl e) \<Rightarrow> (fs', Some e)
                   | (fs', Inr moved_count) \<Rightarrow>
                       if moved_count = 0 then (fs', Some (NoMatch pattern)) else (fs', None)))"

text \<open>The body of the \<open>try\<close> block of \<open>do_delete\<close> for one item.\<close>

definition delete_item :: "'fs os \<Rightarrow> 'fs \<Rightarrow> path \<Rightarrow> 'fs \<times> os_error option" where
  "delete_item os fs path =
     (if os_isdir os fs path then rmtree os fs path else os_remove os fs path)"

fun delete_loop ::
  "'fs os \<Rightarrow> path \<Rightarrow> string \<Rightarrow> string list \<Rightarrow> 'fs \<Rightarrow> nat \<Rightarrow> 'fs \<times> (exn + nat)" where
  "delete_loop os panel_path pattern [] fs deleted_count = (fs, Inr deleted_count)"
| "delete_loop os panel_path pattern (item # rest) fs deleted_count =
     (if fnmatch item pattern then
        (let path = join panel_path item
         in case delete_item os fs path of
              (fs', None) \<Rightarrow> delete_loop os panel_path pattern rest fs' (deleted_count + 1)
            | (fs', Some e) \<Rightarrow> (fs', Inl (ItemFailed Delete item e)))
      else delete_loop os panel_path pattern rest fs deleted_count)"

text \<open>\<open>AIDialog.do_delete\<close>.\<close>

definition do_delete :: "'fs os \<Rightarrow> main_window \<Rightarrow> params \<Rightarrow> 'fs \<Rightarrow> 'fs \<times> exn option" where
  "do_delete os mw p fs =
     (let panel_path = from_panel mw p;
          pattern = get_or p ''pattern'' ''*''
      in if several_files (str_lower os) pattern then (fs, Some (SeveralFiles Delete))
         else case os_listdir os fs panel_path of
                Inl e \<Rightarrow> (fs, Some (Raised e))
              | Inr items \<Rightarrow>
                  (case delete_loop os panel_path pattern items fs 0 of
                     (fs', Inl e) \<Rightarrow> (fs', Some e)
                   | (fs', Inr deleted_count) \<Rightarrow>
                       if deleted_count = 0 then (fs', Some (NoMatch pattern)) else (fs', None)))"

text \<open>
  Two notions for stating what a batch does. \<open>act fs item\<close> is the action on one
  item. \<open>all_ok act fs items\<close> holds when the action succeeds on every item in turn,
  each on the file system that the one before has left; \<open>apply_all act fs items\<close> is
  the file system after the action on every item in turn.
\<close>

fun all_ok :: "('fs \<Rightarrow> string \<Rightarrow> 'fs \<times> os_error option) \<Rightarrow> 'fs \<Rightarrow> string list \<Rightarrow> bool" where
  "all_ok act fs [] = True"
| "all_ok act fs (item # rest) =
     (case act fs item of
        (fs', None) \<Rightarrow> all_ok act fs' rest
      | (fs', Some e) \<Rightarrow> False)"

fun apply_all :: "('fs \<Rightarrow> string \<Rightarrow> 'fs \<times> os_error option) \<Rightarrow> 'fs \<Rightarrow> string list \<Rightarrow> 'fs" where
  "apply_all act fs [] = fs"
| "apply_all act fs (item # rest) = apply_all act (fst (act fs item)) rest"

text \<open>The actions of \<open>do_copy\<close>, \<open>do_move\<close> and \<open>do_delete\<close> on the item with a
  given name.\<close>

definition copy_named :: "'fs os \<Rightarrow> path \<Rightarrow> path \<Rightarrow> 'fs \<Rightarrow> string \<Rightarrow> 'fs \<times> os_error option" where
  "copy_named os from_path to_path fs item =
     copy_item os fs (join from_path item) (join to_path item)"

definition move_named :: "'fs os \<Rightarrow> path \<Rightarrow> path \<Rightarrow> 'fs \<Rightarrow> string \<Rightarrow> 'fs \<times> os_error option" where
  "move_named os from_path to_path fs item =
     move os fs (join from_path item) (join to_path item)"

definition delete_named :: "'fs os \<Rightarrow> path \<Rightarrow> 'fs \<Rightarrow> string \<Rightarrow> 'fs \<times> os_error option" where
  "delete_named os panel_path fs item = delete_item os fs (join panel_path item)"

text \<open>The default names of \<open>do_create_folder\<close> and \<open>do_create_file\<close> (Russian for
  ``new folder'' and ``new_file.txt''), in UTF-8.\<close>

definition default_folder_name :: string where
  "default_folder_name =
     [CHR 0xD0, CHR 0x9D, CHR 0xD0, CHR 0xBE, CHR 0xD0, CHR 0xB2, CHR 0xD0, CHR 0xB0,
      CHR 0xD1, CHR 0x8F, CHR 0x20, CHR 0xD0, CHR 0xBF, CHR 0xD0, CHR 0xB0, CHR 0xD0,
      CHR 0xBF, CHR 0xD0, CHR 0xBA, CHR 0xD0, CHR 0xB0]"

definition default_file_name :: string where
  "default_file_name =
     [CHR 0xD0, CHR 0xBD, CHR 0xD0, CHR 0xBE, CHR 0xD0, CHR 0xB2, CHR 0xD1, CHR 0x8B,
      CHR 0xD0, CHR 0xB9, CHR 0x5F, CHR 0xD1, CHR 0x84, CHR 0xD0, CHR 0xB0, CHR 0xD0,
      CHR 0xB9, CHR 0xD0, CHR 0xBB] @ ''.txt''"

text \<open>\<open>AIDialog.do_create_folder\<close> and \<open>AIDialog.do_create_file\<close>.\<close>

definition do_create_folder ::
  "'fs os \<Rightarrow> main_window \<Rightarrow> params \<Rightarrow> 'fs \<Rightarrow> 'fs \<times> exn option" where
  "do_create_folder os mw p fs =
     (let name = get_or p ''name'' default_folder_name;
          path = join (active_path mw) name
      in case os_makedirs os fs path of
           (fs', None) \<Rightarrow> (fs', None)
         | (fs', Some e) \<Rightarrow> (fs', Some (Raised e)))"

definition do_create_file ::
  "'fs os \<Rightarrow> main_window \<Rightarrow> params \<Rightarrow> 'fs \<Rightarrow> 'fs \<times> exn option" where
  "do_create_file os mw p fs =
     (let name = get_or p ''name'' default_file_name;
          content = get_or p ''content'' [];
          path = join (active_path mw) name
      in case write_text os fs path content of
           (fs', None) \<Rightarrow> (fs', None)
         | (fs', Some e) \<Rightarrow> (fs', Some (Raised e)))"

text \<open>\<open>AIDialog.do_rename\<close>. \<open>a or b\<close> takes \<open>b\<close> when \<open>a\<close> is \<open>None\<close> or empty.\<close>

definition get_first :: "params \<Rightarrow> string \<Rightarrow> string \<Rightarrow> string" where
  "get_first p key other =
     (case p key of
        Some v \<Rightarrow> if v \<noteq> [] then v else get_or p other []
      | None \<Rightarrow> get_or p other [])"

definition do_rename :: "'fs os \<Rightarrow> main_window \<Rightarrow> params \<Rightarrow> 'fs \<Rightarrow> 'fs \<times> exn option" where
  "do_rename os mw p fs =
     (let old_name = get_first p ''old_name'' ''old'';
          new_name = get_first p ''new_name'' ''new''
      in if old_name = [] \<or> new_name = [] then (fs, Some NamesMissing)
         else
           (let old_path = join (active_path mw) old_name;
                new_path = join (active_path mw) new_name
            in if \<not> os_exists os fs old_path then (fs, Some (NotFound old_name))
               else if os_exists os fs new_path then (fs, Some (AlreadyExists new_name))
               else case os_rename os fs old_path new_path of
                      (fs', None) \<Rightarrow> (fs', None)
                    | (fs', Some e) \<Rightarrow> (fs', Some (Raised e))))"

section \<open>The assistant's dialog\<close>

text \<open>
  The decoded answer of the text-generation service: a JSON object whose fields
  \<open>action\<close> and \<open>message\<close>, when present, are strings, and whose field \<open>params\<close>,
  when present, maps strings to strings.
\<close>

record cmd =
  action :: "string option"
  params :: "params option"
  message :: "string option"

text \<open>The state of the dialog: the file system, the history, the id of the row of
  the request in progress, and whether the input line is enabled. The text of the
  chat widget is not part of the state.\<close>

record 'fs dialog =
  file_system :: 'fs
  db :: database
  current_message_id :: "nat option"
  input_enabled :: bool

text \<open>\<open>if self.current_message_id: self.db.update_message(...)\<close>: \<open>None\<close> and \<open>0\<close>
  are false.\<close>

definition update_current :: "'fs dialog \<Rightarrow> update_args \<Rightarrow> 'fs dialog" where
  "update_current st u =
     (case current_message_id st of
        None \<Rightarrow> st
      | Some message_id \<Rightarrow>
          if message_id = 0 then st else st\<lparr>db := update_message (db st) message_id u\<rparr>)"

definition is_space :: "char \<Rightarrow> bool" where
  "is_space c = (let n = (of_char c :: nat) in (9 \<le> n \<and> n \<le> 13) \<or> (28 \<le> n \<and> n \<le> 32))"

definition strip :: "string \<Rightarrow> string" where
  "strip s = rev (dropWhile is_space (rev (dropWhile is_space s)))"

text \<open>\<open>AIDialog.send\<close> up to the start of the request: the request is stored as a
  pending row and the input line is disabled. The request itself runs in a thread of
  its own and ends with a call of \<open>on_response\<close>.\<close>

definition send :: "string \<Rightarrow> string \<Rightarrow> 'fs dialog \<Rightarrow> 'fs dialog" where
  "send input now st =
     (let text = strip input in
      if text = [] then st
      else
        (let (db', message_id) = add_message (db st) now text
         in st\<lparr>db := db', current_message_id := Some message_id, input_enabled := False\<rparr>))"

text \<open>
  \<open>AIDialog.execute\<close>. \<open>cmd['action']\<close> raises \<open>KeyError\<close> outside the \<open>try\<close> block;
  every exception of the operations is caught and written to the row. Refreshing the
  panels after a success changes neither the file system nor the history.
\<close>

definition execute :: "'fs os \<Rightarrow> main_window \<Rightarrow> cmd \<Rightarrow> 'fs dialog \<Rightarrow> exn + 'fs dialog" where
  "execute os mw c st =
     (case action c of
        None \<Rightarrow> Inl (KeyError ''action'')
      | Some act \<Rightarrow>
          (let p = (case params c of None \<Rightarrow> Map.empty | Some p \<Rightarrow> p);
               (fs', raised) =
                 (let fs = file_system st in
                  if act = ''copy'' then do_copy os mw p fs
                  else if act = ''move'' then do_move os mw p fs
                  else if act = ''delete'' then do_delete os mw p fs
                  else if act = ''create_folder'' then do_create_folder os mw p fs
                  else if act = ''create_file'' then do_create_file os mw p fs
                  else if act = ''rename'' then do_rename os mw p fs
                  else (fs, None))
           in case raised of
                None \<Rightarrow>
                  Inr (update_current (st\<lparr>file_system := fs'\<rparr>)
                         (no_update\<lparr>new_status := Some success\<rparr>))
              | Some e \<Rightarrow>
                  Inr (update_current (st\<lparr>file_system := fs'\<rparr>)
                         (no_update\<lparr>new_status := Some error,
                                    new_error_message := Some (Str e)\<rparr>))))"

text \<open>
  \<open>AIDialog.on_response\<close>. \<open>loads\<close> stands for the removal of the code fence and
  \<open>json.loads\<close>, and is a parameter. An exception raised after the answer has been
  decoded is caught by the handler at the end, which marks the row as an error.
\<close>

definition on_error :: "exn \<Rightarrow> 'fs dialog \<Rightarrow> 'fs dialog" where
  "on_error e st =
     update_current st (no_update\<lparr>new_status := Some error, new_error_message := Some (Str e)\<rparr>)"

definition on_response ::
  "'fs os \<Rightarrow> main_window \<Rightarrow> (string \<Rightarrow> exn + cmd) \<Rightarrow> string \<Rightarrow> bool \<Rightarrow> 'fs dialog \<Rightarrow> 'fs dialog" where
  "on_response os mw loads answer succeeded st0 =
     (let st = st0\<lparr>input_enabled := True\<rparr> in
      if \<not> succeeded then
        update_current st
          (no_update\<lparr>new_status := Some error, new_error_message := Some (Answer answer)\<rparr>)
      else
        (case loads answer of
           Inl e \<Rightarrow> on_error e st
         | Inr c \<Rightarrow>
             (let ai_message = (case message c of None \<Rightarrow> [] | Some m \<Rightarrow> m);
                  st1 = update_current st
                          (no_update\<lparr>new_ai_response := Some ai_message,
                                     new_action := action c, new_params := params c\<rparr>)
              in case action c of
                   None \<Rightarrow> on_error (KeyError ''action'') st1
                 | Some act \<Rightarrow>
                     if act = ''error'' then
                       update_current st1 (no_update\<lparr>new_status := Some error\<rparr>)
                     else
                       (case execute os mw c st1 of
                          Inl e \<Rightarrow> on_error e st1
                        | Inr st2 \<Rightarrow> st2))))"

section \<open>An in-memory file system\<close>

text \<open>
  A small file system on which the operations can be run: a table from paths to
  nodes, a node being a regular file with its content or a directory. The root always
  exists. \<open>os.listdir\<close> returns the names in the order of the table. There are no
  permissions, links or devices, and \<open>str.lower\<close> is \<open>ascii_lower\<close>. The functions
  follow the library on POSIX for tables in which every entry has its parent
  directory; where a copied or moved directory meets entries of the destination with
  the same relative path, these are replaced.
\<close>

datatype node = File string | Folder

type_synonym store = "(path \<times> node) list"

definition is_below :: "path \<Rightarrow> path \<Rightarrow> bool" where
  "is_below d q = (take (length d) q = d)"

definition mem_isdir :: "store \<Rightarrow> path \<Rightarrow> bool" where
  "mem_isdir t p = (p = [] \<or> map_of t p = Some Folder)"

definition mem_exists :: "store \<Rightarrow> path \<Rightarrow> bool" where
  "mem_exists t p = (p = [] \<or> map_of t p \<noteq> None)"

definition mem_listdir :: "store \<Rightarrow> path \<Rightarrow> os_error + string list" where
  "mem_listdir t d =
     (if mem_isdir t d then Inr (map (\<lambda>e. last (fst e)) (filter (\<lambda>e. fst e \<noteq> [] \<and> butlast (fst e) = d) t))
      else if mem_exists t d then Inl NotADirectoryError
      else Inl FileNotFoundError)"

definition mem_write :: "store \<Rightarrow> path \<Rightarrow> string \<Rightarrow> store \<times> os_error option" where
  "mem_write t p content =
     (if mem_isdir t p then (t, Some IsADirectoryError)
      else if \<not> mem_isdir t (dirname p) then (t, Some FileNotFoundError)
      else (AList.update p (File content) t, None))"

definition mem_copy2 :: "store \<Rightarrow> path \<Rightarrow> path \<Rightarrow> store \<times> os_error option" where
  "mem_copy2 t src dst =
     (case map_of t src of
        None \<Rightarrow> (t, Some FileNotFoundError)
      | Some Folder \<Rightarrow> (t, Some IsADirectoryError)
      | Some (File content) \<Rightarrow>
          (let target = (if mem_isdir t dst then join dst (basename src) else dst)
           in if target = src then (t, Some SameFileError) else mem_write t target content))"

definition mem_makedirs :: "store \<Rightarrow> path \<Rightarrow> store \<times> os_error option" where
  "mem_makedirs t p =
     (let ancestors = map (\<lambda>k. take k p) [1..<Suc (length p)] in
      if mem_isdir t p then (t, None)
      else if mem_exists t p then (t, Some FileExistsError)
      else if list_ex (\<lambda>q. mem_exists t q \<and> \<not> mem_isdir t q) ancestors
        then (t, Some NotADirectoryError)
      else (t @ map (\<lambda>q. (q, Folder)) (filter (\<lambda>q. \<not> mem_exists t q) ancestors), None))"

definition rebase :: "path \<Rightarrow> path \<Rightarrow> path \<Rightarrow> path" where
  "rebase src dst q = dst @ drop (length src) q"

definition mem_copytree :: "store \<Rightarrow> path \<Rightarrow> path \<Rightarrow> store \<times> os_error option" where
  "mem_copytree t src dst =
     (if \<not> mem_isdir t src then (t, Some NotADirectoryError)
      else case mem_makedirs t dst of
             (t1, Some e) \<Rightarrow> (t1, Some e)
           | (t1, None) \<Rightarrow>
               (fold (\<lambda>e acc. AList.update (rebase src dst (fst e)) (snd e) acc)
                  (filter (\<lambda>e. is_below src (fst e) \<and> fst e \<noteq> src) t) t1, None))"

definition mem_remove :: "store \<Rightarrow> path \<Rightarrow> store \<times> os_error option" where
  "mem_remove t p =
     (case map_of t p of
        None \<Rightarrow> (t, Some FileNotFoundError)
      | Some Folder \<Rightarrow> (t, Some IsADirectoryError)
      | Some (File content) \<Rightarrow> (filter (\<lambda>e. fst e \<noteq> p) t, None))"

definition mem_rmtree :: "store \<Rightarrow> path \<Rightarrow> store \<times> os_error option" where
  "mem_rmtree t p =
     (if map_of t p = Some Folder then (filter (\<lambda>e. \<not> is_below p (fst e)) t, None)
      else if mem_exists t p then (t, Some NotADirectoryError)
      else (t, Some FileNotFoundError))"

definition mem_rename :: "store \<Rightarrow> path \<Rightarrow> path \<Rightarrow> store \<times> os_error option" where
  "mem_rename t a b =
     (if map_of t a = None then (t, Some FileNotFoundError)
      else if a = b then (t, None)
      else if \<not> mem_isdir t (dirname b) then (t, Some FileNotFoundError)
      else if mem_isdir t a \<and> mem_exists t b \<and> \<not> mem_isdir t b then (t, Some NotADirectoryError)
      else if \<not> mem_isdir t a \<and> mem_isdir t b then (t, Some IsADirectoryError)
      else if mem_isdir t b \<and> list_ex (\<lambda>e. is_below b (fst e) \<and> fst e \<noteq> b) t
        then (t, Some OtherOSError)
      else (map (\<lambda>e. if is_below a (fst e) then (rebase a b (fst e), snd e) else e)
              (filter (\<lambda>e. fst e \<noteq> b) t), None))"

definition mem_move :: "store \<Rightarrow> path \<Rightarrow> path \<Rightarrow> store \<times> os_error option" where
  "mem_move t src dst =
     (if mem_isdir t dst \<and> src \<noteq> dst then
        (let real_dst = join dst (basename src)
         in if mem_exists t real_dst then (t, Some DestinationExists)
            else mem_rename t src real_dst)
      else mem_rename t src dst)"

definition mem_os :: "store os" where
  "mem_os =
     \<lparr>os_listdir = mem_listdir, os_isdir = mem_isdir, os_exists = mem_exists,
      copy2 = mem_copy2, copytree = mem_copytree, move = mem_move,
      os_remove = mem_remove, rmtree = mem_rmtree, os_makedirs = mem_makedirs,
      write_text = mem_write, os_rename = mem_rename, str_lower = ascii_lower\<rparr>"

text \<open>The names that \<open>os.listdir\<close> returns for a directory of the table.\<close>

definition names_in :: "store \<Rightarrow> path \<Rightarrow> string list" where
  "names_in t d = (case mem_listdir t d of Inr names \<Rightarrow> names | Inl e \<Rightarrow> [])"

text \<open>The entries of a table at or below a directory.\<close>

definition subtree :: "store \<Rightarrow> path \<Rightarrow> store" where
  "subtree t d = filter (\<lambda>e. is_below d (fst e)) t"

section \<open>Scenarios\<close>

text \<open>
  \<open>str.lower\<close> on strings of ASCII characters and of the Russian letters U+0410 to
  U+044F. In UTF-8 the capitals U+0410 to U+041F are the bytes D0 90 to D0 9F and
  become D0 B0 to D0 BF (bit 5 of the second byte is set); the capitals U+0420 to
  U+042F are D0 A0 to D0 AF and become D1 80 to D1 8F (bit 5 is cleared).
\<close>

definition set_bit5 :: "bool \<Rightarrow> char \<Rightarrow> char" where
  "set_bit5 v c = (case c of Char b0 b1 b2 b3 b4 b5 b6 b7 \<Rightarrow> Char b0 b1 b2 b3 b4 v b6 b7)"

fun russian_lower :: "string \<Rightarrow> string" where
  "russian_lower [] = []"
| "russian_lower [c] = [ascii_lower_chr c]"
| "russian_lower (c # d # s) =
     (let m = (of_char d :: nat) in
      if c = CHR 0xD0 \<and> 144 \<le> m \<and> m \<le> 159 then c # set_bit5 True d # russian_lower s
      else if c = CHR 0xD0 \<and> 160 \<le> m \<and> m \<le> 175 then
        CHR 0xD1 # set_bit5 False d # russian_lower s
      else ascii_lower_chr c # russian_lower (d # s))"

text \<open>The strings \<open>a.txt\<close>, capital U+0418, \<open>b.txt\<close> with spaces between them; the
  one-letter names U+042F (a capital) and U+0431 (a small letter); the file name of
  the small letter U+044F with the extension \<open>.txt\<close>; and the display text of a file
  \<open>a.txt\<close> whose size ends with the capital U+0411.\<close>

definition two_names :: string where
  "two_names = ''a.txt '' @ [CHR 0xD0, CHR 0x98] @ '' b.txt''"

definition capital_ya :: string where
  "capital_ya = [CHR 0xD0, CHR 0xAF]"

definition small_be :: string where
  "small_be = [CHR 0xD0, CHR 0xB1]"

definition ya_txt :: string where
  "ya_txt = [CHR 0xD1, CHR 0x8F] @ ''.txt''"

definition a_txt_shown :: string where
  "a_txt_shown = ''a.txt (10.0 '' @ [CHR 0xD0, CHR 0x91] @ '')''"

text \<open>A rendering of sizes that shows a question mark for every size.\<close>

definition plain_size :: "nat \<Rightarrow> string" where
  "plain_size n = ''?''"

text \<open>A directory \<open>/home\<close> with two sub-directories: \<open>a\<close>, modified at time 2, and
  \<open>b\<close>, modified at time 1.\<close>

definition two_dirs :: stat_env where
  "two_dirs =
     \<lparr>listdir_result = Some [''a'', ''b''], isdir = (\<lambda>p. True), getsize = (\<lambda>p. None),
      getmtime = (\<lambda>p. if p = [''home'', ''a''] then Some 2 else Some 1)\<rparr>"

text \<open>A directory \<open>/home\<close> with the files \<open>a.txt\<close> (10 bytes) and \<open>b.txt\<close> (5 bytes)
  and the sub-directories \<open>src\<close> and \<open>Doc\<close>.\<close>

definition small_dir :: stat_env where
  "small_dir =
     \<lparr>listdir_result = Some [''b.txt'', ''src'', ''a.txt'', ''Doc''],
      isdir = (\<lambda>p. p = [''home'', ''src''] \<or> p = [''home'', ''Doc'']),
      getsize = (\<lambda>p. if p = [''home'', ''a.txt''] then Some 10
                      else if p = [''home'', ''b.txt''] then Some 5 else None),
      getmtime = (\<lambda>p. Some 0)\<rparr>"

text \<open>Two directories \<open>/A\<close> and \<open>/B\<close>: \<open>/A\<close> holds the files \<open>a.txt\<close>, \<open>b.txt\<close> and
  \<open>c.log\<close>, \<open>/B\<close> is empty. The left panel shows \<open>/A\<close>, the right panel \<open>/B\<close>.\<close>

definition store_AB :: store where
  "store_AB =
     [([''A''], Folder), ([''B''], Folder),
      ([''A'', ''a.txt''], File ''alpha''), ([''A'', ''b.txt''], File ''beta''),
      ([''A'', ''c.log''], File ''gamma'')]"

text \<open>The same with the single file \<open>ya_txt\<close> in \<open>/A\<close>, and the in-memory file system
  with \<open>russian_lower\<close>.\<close>

definition store_ya :: store where
  "store_ya = [([''A''], Folder), ([''B''], Folder), ([''A'', ya_txt], File ''alpha'')]"

definition russian_os :: "store os" where
  "russian_os = mem_os\<lparr>str_lower := russian_lower\<rparr>"

definition window_AB :: main_window where
  "window_AB = \<lparr>left_panel = [''A''], right_panel = [''B''], active_panel = Left\<rparr>"

text \<open>The in-memory file system in which the entry with the given name cannot be
  copied, moved or removed: permission is denied.\<close>

definition deny :: "string \<Rightarrow> store os" where
  "deny name =
     mem_os
       \<lparr>copy2 := (\<lambda>t src dst. if basename src = name then (t, Some PermissionError)
                              else mem_copy2 t src dst),
        move := (\<lambda>t src dst. if basename src = name then (t, Some PermissionError)
                             else mem_move t src dst),
        os_remove := (\<lambda>t path. if basename path = name then (t, Some PermissionError)
                                else mem_remove t path)\<rparr>"

text \<open>A directory \<open>/home\<close> with the sub-directory \<open>docs\<close>, which holds the file \<open>x\<close>,
  and the file \<open>notes.txt\<close> with the content \<open>old\<close>. Both panels show \<open>/home\<close>.\<close>

definition store_home :: store where
  "store_home =
     [([''home''], Folder), ([''home'', ''docs''], Folder),
      ([''home'', ''docs'', ''x''], File ''1''), ([''home'', ''notes.txt''], File ''old'')]"

definition window_home :: main_window where
  "window_home = \<lparr>left_panel = [''home''], right_panel = [''home''], active_panel = Left\<rparr>"

text \<open>An answer of the service whose action is not one of the known ones, and a decoder
  that yields it.\<close>

definition teleport_cmd :: cmd where
  "teleport_cmd =
     \<lparr>action = Some ''teleport'', params = Some [''pattern'' \<mapsto> ''*''],
      message = Some ''beaming''\<rparr>"

definition loads_teleport :: "string \<Rightarrow> exn + cmd" where
  "loads_teleport answer = Inr teleport_cmd"

text \<open>A dialog that has just been opened on the directories \<open>/A\<close> and \<open>/B\<close>.\<close>

definition dialog_AB :: "store dialog" where
  "dialog_AB =
     \<lparr>file_system = store_AB, db = init_database, current_message_id = None,
      input_enabled = True\<rparr>"

section \<open>Properties of the chat history\<close>

lemma db_ok_init: "db_ok init_database"
  by (simp add: db_ok_def init_database_def)

lemma row_id_update_row: "row_id (update_row u r) = row_id r"
  by (simp add: update_row_def)

lemma db_ok_run_call: "db_ok d \<Longrightarrow> db_ok (run_call d c)"
proof (cases c)
  case (AddMessage now msg)
  assume "db_ok d"
  then show ?thesis
    unfolding AddMessage db_ok_def
    by (auto simp: add_message_def Let_def sorted_wrt_append list_all_iff)
next
  case (UpdateMessage i u)
  have "(row_id \<circ> (\<lambda>r. if row_id r = i then update_row u r else r)) = row_id"
    by (rule ext) (simp add: row_id_update_row)
  moreover assume "db_ok d"
  ultimately show ?thesis
    unfolding UpdateMessage db_ok_def
    by (auto simp: update_message_def list_all_iff row_id_update_row)
next
  case ClearHistory
  then show ?thesis by (simp add: db_ok_def clear_history_def)
qed

lemma db_ok_foldl: "db_ok d \<Longrightarrow> db_ok (foldl run_call d calls)"
  by (induction calls arbitrary: d) (simp_all add: db_ok_run_call)

lemma db_ok_run_calls: "db_ok (run_calls calls)"
  by (simp add: run_calls_def db_ok_foldl db_ok_init)

lemma recent_of_sorted:
  assumes "sorted_wrt (<) (map row_id xs)"
  shows "rev (take n (rev (sort_key row_id xs))) = drop (length xs - n) xs"
proof -
  from assms have "sorted (map row_id xs)"
    by (simp add: strict_sorted_imp_sorted)
  then have "sort_key row_id xs = xs"
    by (rule sort_key_id_if_sorted)
  then show ?thesis by (simp add: rev_take)
qed

text \<open>
  Claim C9. After any history of calls on the store, \<open>get_recent_history\<close> with the
  count \<open>n\<close> returns the last \<open>n\<close> rows in the order of their insertion, oldest
  first, and all rows when there are fewer than \<open>n\<close>.
\<close>

theorem recent_history_last_n:
  "get_recent_history (run_calls calls) (int n) =
     drop (length (rows (run_calls calls)) - n) (rows (run_calls calls))"
  using db_ok_run_calls [of calls]
  by (simp add: get_recent_history_def limit_def db_ok_def recent_of_sorted)

text \<open>After ten requests, the count 6 gives the requests five to ten, oldest first.\<close>

theorem recent_history_ten_submissions:
  "map user_message
     (get_recent_history
        (run_calls (map (AddMessage ''t'')
           [''m1'', ''m2'', ''m3'', ''m4'', ''m5'', ''m6'', ''m7'', ''m8'', ''m9'', ''m10'']))
        6) = [''m5'', ''m6'', ''m7'', ''m8'', ''m9'', ''m10'']"
  using recent_history_last_n [of "map (AddMessage ''t'')
           [''m1'', ''m2'', ''m3'', ''m4'', ''m5'', ''m6'', ''m7'', ''m8'', ''m9'', ''m10'']" 6]
  by (simp add: run_calls_def add_message_def init_database_def)

section \<open>Properties of the file panel\<close>

lemma starts_with_prefix: "starts_with s t = prefix t s"
  by (induction s t rule: starts_with.induct) auto

lemma py_in_sublist: "py_in t s = sublist t s"
  by (induction s) (simp_all add: starts_with_prefix sublist_Cons_right)

text \<open>
  Claim C3, as amended. Whatever \<open>str.lower\<close> does, for a search text \<open>P\<close> whose
  lower-cased form is not empty (\<open>str.lower\<close> yields the empty string only for the
  empty string) the search box shows exactly the cached items in whose display text or
  base name the text \<open>P\<close> occurs as a substring, both sides lower-cased, in the order
  of the cache. The result is a list, empty when nothing is found. No character of
  \<open>P\<close> acts as a wildcard. A search text whose lower-cased form is empty shows the
  whole cache.
\<close>

theorem filter_files_substring:
  "(lower P \<noteq> [] \<longrightarrow>
      filter_files lower P all_items =
        filter (\<lambda>it. sublist (lower P) (lower (item_text it))
                   \<or> sublist (lower P) (lower (basename (user_role it)))) all_items) \<and>
   (lower P = [] \<longrightarrow> filter_files lower P all_items = all_items)"
  by (simp add: filter_files_def Let_def py_in_sublist)

text \<open>The search text \<open>OC\<close> finds the directory \<open>docs\<close>; the small letter U+0431 finds
  the file whose size is shown with the capital U+0411; and the small letter U+044F
  finds the directory named by the capital U+042F.\<close>

theorem filter_files_substring_witness:
  "ascii_lower [] = [] \<and>
   filter_files ascii_lower [] [dir_item [''home''] ''docs''] = [dir_item [''home''] ''docs''] \<and>
   ascii_lower ''OC'' \<noteq> [] \<and>
   filter_files ascii_lower ''OC'' [dir_item [''home''] ''docs'', dir_item [''home''] ''pics''] =
     [dir_item [''home''] ''docs''] \<and>
   russian_lower small_be \<noteq> [] \<and>
   filter_files russian_lower small_be
     [\<lparr>item_text = a_txt_shown, user_role = [''home'', ''a.txt''], folder_icon = False\<rparr>] =
     [\<lparr>item_text = a_txt_shown, user_role = [''home'', ''a.txt''], folder_icon = False\<rparr>] \<and>
   filter_files russian_lower [CHR 0xD1, CHR 0x8F] [dir_item [''home''] capital_ya] =
     [dir_item [''home''] capital_ya]"
  using filter_files_substring [of ascii_lower "[]" "[dir_item [''home''] ''docs'']"]
    filter_files_substring
    [of ascii_lower "''OC''" "[dir_item [''home''] ''docs'', dir_item [''home''] ''pics'']"]
    filter_files_substring
    [of russian_lower small_be
      "[\<lparr>item_text = a_txt_shown, user_role = [''home'', ''a.txt''], folder_icon = False\<rparr>]"]
    filter_files_substring
    [of russian_lower "[CHR 0xD1, CHR 0x8F]" "[dir_item [''home''] capital_ya]"]
  by (simp add: dir_item_def join_def basename_def ascii_lower_def ascii_lower_chr_def
      set_bit5_def small_be_def a_txt_shown_def capital_ya_def sublist_code prefix_code)

text \<open>
  The search box against the pattern matching of the assistant, on the cached
  directory \<open>docs\<close>: the pattern \<open>d*\<close> matches the name but the search shows nothing,
  and the search text \<open>oc\<close> shows the directory although the pattern \<open>oc\<close> does not
  match its name.
\<close>

theorem filter_files_glob_counterexample:
  "fnmatch (ascii_lower ''docs'') (ascii_lower ''d*'') \<and>
   filter_files ascii_lower ''d*'' [dir_item [''home''] ''docs''] = [] \<and>
   \<not> fnmatch (ascii_lower ''docs'') (ascii_lower ''oc'') \<and>
   filter_files ascii_lower ''oc'' [dir_item [''home''] ''docs''] = [dir_item [''home''] ''docs'']"
  by (simp add: filter_files_def fnmatch_def ord_def dir_item_def join_def basename_def
      ascii_lower_def ascii_lower_chr_def)

lemma mset_sorted_py: "mset (sorted_py k r xs) = mset xs"
  by (simp add: sorted_py_def)

lemma sorted_sorted_py_asc: "sorted (map k (sorted_py k False xs))"
  by (simp add: sorted_py_def)

lemma sorted_sorted_py_desc: "sorted (rev (map k (sorted_py k True xs)))"
  by (simp add: sorted_py_def rev_map)

lemma mset_sort_entries: "mset (sort_entries lower mode env cur xs b) = mset xs"
  by (simp add: sort_entries_def mset_sorted_py)

text \<open>
  Claim C5, as amended. Whatever \<open>str.lower\<close> does, \<open>sort_entries\<close> returns a
  rearrangement of the entries it is given, in every mode. Under a size sort mode the
  directories are ordered by their lower-cased names, ascending, and only the files
  are ordered by size. Under a date sort mode the directories are ordered by
  modification time, as the files are.
\<close>

theorem sort_entries_directories:
  "mset (sort_entries lower any_mode env cur xs any) = mset xs \<and>
   ((mode = size_asc \<or> mode = size_desc) \<longrightarrow>
      sorted (map lower (sort_entries lower mode env cur dirs True))) \<and>
   sorted (map (get_size env cur) (sort_entries lower size_asc env cur files False)) \<and>
   sorted (rev (map (get_size env cur) (sort_entries lower size_desc env cur files False))) \<and>
   sorted (map (get_mtime env cur) (sort_entries lower date_asc env cur entries is_dir)) \<and>
   sorted (rev (map (get_mtime env cur) (sort_entries lower date_desc env cur entries is_dir)))"
  by (auto simp: sort_entries_def sorted_sorted_py_asc sorted_sorted_py_desc mset_sorted_py)

text \<open>Under \<open>size_desc\<close> the directories \<open>b\<close>, \<open>a\<close> are listed as \<open>a\<close>, \<open>b\<close>, and the
  directories named by the capital U+042F and the small U+0431 are listed with the
  small U+0431 first.\<close>

theorem sort_entries_directories_witness:
  "sorted (map ascii_lower (sort_entries ascii_lower size_desc two_dirs [''home''] [''b'', ''a''] True)) \<and>
   sort_entries ascii_lower size_desc two_dirs [''home''] [''b'', ''a''] True = [''a'', ''b''] \<and>
   mset [''a'', ''b''] = mset [''b'', ''a''] \<and>
   sort_entries russian_lower size_asc two_dirs [''home''] [capital_ya, small_be] True =
     [small_be, capital_ya]"
  using sort_entries_directories
      [of ascii_lower size_desc two_dirs "[''home'']" "[''b'', ''a'']" True size_desc "[''b'', ''a'']"]
    sort_entries_directories
      [of russian_lower size_asc two_dirs "[''home'']" "[capital_ya, small_be]" True size_asc
        "[capital_ya, small_be]"]
  by (simp add: sort_entries_def sorted_py_def ascii_lower_def ascii_lower_chr_def
      set_bit5_def capital_ya_def small_be_def)

text \<open>
  Under \<open>date_asc\<close> the directories \<open>a\<close> (time 2) and \<open>b\<close> (time 1) are listed as
  \<open>b\<close>, \<open>a\<close>: by time, not by name.
\<close>

theorem sort_entries_date_counterexample:
  "sort_entries ascii_lower date_asc two_dirs [''home''] [''a'', ''b''] True = [''b'', ''a''] \<and>
   \<not> sorted (map ascii_lower [''b'', ''a'']) \<and>
   map item_text (load_directory ascii_lower date_asc plain_size two_dirs [''home'']) =
     [''..'', ''b'', ''a'']"
  by (simp add: sort_entries_def sorted_py_def get_mtime_def two_dirs_def join_def
      load_directory_def dirname_def parent_item_def dir_item_def ascii_lower_def
      ascii_lower_chr_def)

lemma sorted_wrt_all:
  "(\<And>x y. x \<in> set xs \<Longrightarrow> y \<in> set xs \<Longrightarrow> R x y) \<Longrightarrow> sorted_wrt R xs"
  by (induction xs) auto

lemma folders_then_files:
  assumes "list_all f xs" and "list_all (\<lambda>y. \<not> f y) ys"
  shows "sorted_wrt (\<lambda>a b. f b \<longrightarrow> f a) (xs @ ys)"
proof -
  have "sorted_wrt (\<lambda>a b. f b \<longrightarrow> f a) xs"
    using assms(1) by (intro sorted_wrt_all) (simp add: list_all_iff)
  moreover have "sorted_wrt (\<lambda>a b. f b \<longrightarrow> f a) ys"
    using assms(2) by (intro sorted_wrt_all) (simp add: list_all_iff)
  ultimately show ?thesis
    using assms by (simp add: sorted_wrt_append list_all_iff)
qed

lemma folder_icon_file_item: "folder_icon (file_item fmt env cur n) = False"
  by (simp add: file_item_def Let_def split: option.split)

lemma user_role_file_item: "user_role (file_item fmt env cur n) = join cur n"
  by (simp add: file_item_def Let_def split: option.split)

lemma set_sort_entries: "set (sort_entries lower mode env cur xs b) = set xs"
  using mset_sort_entries [of lower mode env cur xs b] by (rule mset_eq_setD)

lemma load_directory_shape:
  "load_directory lower mode fmt env cur =
     (if dirname cur \<noteq> cur then [parent_item cur] else []) @
     (case listdir_result env of None \<Rightarrow> []
      | Some entries \<Rightarrow>
          map (dir_item cur)
            (sort_entries lower mode env cur (filter (\<lambda>e. isdir env (join cur e)) entries) True) @
          map (file_item fmt env cur)
            (sort_entries lower mode env cur (filter (\<lambda>e. \<not> isdir env (join cur e)) entries) False))"
  by (simp add: load_directory_def Let_def split: option.split)

lemma dirname_root: "dirname cur \<noteq> cur \<longleftrightarrow> cur \<noteq> []"
  by (cases cur rule: rev_cases) (simp_all add: dirname_def)

text \<open>
  Claim C7. Whatever \<open>str.lower\<close> does, for every sort mode and every load, no item
  with the folder icon follows an item without it, and the parent item comes first
  when the path is not the root.
  When the directory can be listed, the items after the parent item are the entries
  of the directory, each once, and an item has the folder icon exactly when its path
  is a directory.
\<close>

theorem load_directory_folders_first:
  "sorted_wrt (\<lambda>a b. folder_icon b \<longrightarrow> folder_icon a)
     (load_directory lower mode fmt env cur) \<and>
   (cur \<noteq> [] \<longrightarrow> take 1 (load_directory lower mode fmt env cur) = [parent_item cur]) \<and>
   (listdir_result env = Some entries \<longrightarrow>
      mset (map user_role (listed cur (load_directory lower mode fmt env cur))) =
        mset (map (join cur) entries) \<and>
      list_all (\<lambda>it. folder_icon it = isdir env (user_role it))
        (listed cur (load_directory lower mode fmt env cur)))"
proof (intro conjI impI)
  let ?P = "if dirname cur \<noteq> cur then [parent_item cur] else []"
  let ?D = "case listdir_result env of None \<Rightarrow> []
      | Some entries \<Rightarrow> map (dir_item cur)
            (sort_entries lower mode env cur (filter (\<lambda>e. isdir env (join cur e)) entries) True)"
  let ?F = "case listdir_result env of None \<Rightarrow> []
      | Some entries \<Rightarrow> map (file_item fmt env cur)
            (sort_entries lower mode env cur (filter (\<lambda>e. \<not> isdir env (join cur e)) entries) False)"
  have shape: "load_directory lower mode fmt env cur = (?P @ ?D) @ ?F"
    by (simp add: load_directory_shape split: option.split)
  have "list_all folder_icon (?P @ ?D)"
    by (auto simp: list_all_iff parent_item_def dir_item_def split: option.split)
  moreover have "list_all (\<lambda>y. \<not> folder_icon y) ?F"
    by (auto simp: list_all_iff folder_icon_file_item split: option.split)
  ultimately show "sorted_wrt (\<lambda>a b. folder_icon b \<longrightarrow> folder_icon a)
     (load_directory lower mode fmt env cur)"
    unfolding shape by (rule folders_then_files)
next
  assume "cur \<noteq> []"
  then show "take 1 (load_directory lower mode fmt env cur) = [parent_item cur]"
    by (simp add: load_directory_shape dirname_root)
next
  assume l: "listdir_result env = Some entries"
  have m: "image_mset g (mset (sort_entries lower mode env cur xs b)) = image_mset g (mset xs)"
    for g :: "string \<Rightarrow> path" and xs b
    by (simp add: mset_sort_entries)
  have u1: "user_role \<circ> dir_item cur = join cur"
    by (rule ext) (simp add: dir_item_def)
  have u2: "user_role \<circ> file_item fmt env cur = join cur"
    by (rule ext) (simp add: user_role_file_item)
  have "mset (map (join cur) (filter (\<lambda>e. isdir env (join cur e)) entries)) +
        mset (map (join cur) (filter (\<lambda>e. \<not> isdir env (join cur e)) entries)) =
        mset (map (join cur) entries)"
    by (induction entries) simp_all
  then show "mset (map user_role (listed cur (load_directory lower mode fmt env cur))) =
        mset (map (join cur) entries)"
    using l
    by (simp add: load_directory_shape listed_def multiset.map_comp u1 u2 m)
next
  assume l: "listdir_result env = Some entries"
  show "list_all (\<lambda>it. folder_icon it = isdir env (user_role it))
        (listed cur (load_directory lower mode fmt env cur))"
    using l
    by (auto simp: load_directory_shape listed_def list_all_iff set_sort_entries
        folder_icon_file_item user_role_file_item dir_item_def)
qed

theorem load_directory_folders_first_witness:
  "[''home''] \<noteq> [] \<and>
   listdir_result small_dir = Some [''b.txt'', ''src'', ''a.txt'', ''Doc''] \<and>
   map user_role (load_directory ascii_lower size_desc plain_size small_dir [''home'']) =
     [[], [''home'', ''Doc''], [''home'', ''src''], [''home'', ''a.txt''], [''home'', ''b.txt'']] \<and>
   map folder_icon (load_directory ascii_lower size_desc plain_size small_dir [''home'']) =
     [True, True, True, False, False]"
  using load_directory_folders_first
    [of ascii_lower size_desc plain_size small_dir "[''home'']" "[''b.txt'', ''src'', ''a.txt'', ''Doc'']"]
  by (simp add: load_directory_def small_dir_def sort_entries_def sorted_py_def join_def
      dirname_def parent_item_def dir_item_def file_item_def get_size_def ascii_lower_def
      ascii_lower_chr_def)

section \<open>Properties of the operations of the assistant\<close>

lemma tok_match_star: "tok_match [Star] s"
  by (induction s) simp_all

lemma fnmatch_star: "fnmatch item ''*''"
  by (simp add: fnmatch_def ord_def tok_match_star)

lemma several_files_sublist:
  "several_files lower pattern \<longleftrightarrow>
     sublist '','' pattern \<or> sublist cyrillic_and (lower pattern)
     \<or> sublist '' and '' (lower pattern)"
  by (simp add: several_files_def py_in_sublist)

text \<open>
  Claim C6. Whatever \<open>str.lower\<close> and the other library calls do, a pattern that
  contains a comma, or whose lower-cased form contains the word \<open>and\<close> or its Russian
  counterpart between spaces, is rejected by \<open>do_copy\<close>, \<open>do_move\<close> and \<open>do_delete\<close>
  with the error for several files: the file system is returned as it was.
\<close>

theorem several_files_rejected:
  assumes "sublist '','' pattern \<or> sublist '' and '' (str_lower os pattern)
           \<or> sublist cyrillic_and (str_lower os pattern)"
    and "p ''pattern'' = Some pattern"
  shows "do_copy os mw p fs = (fs, Some (SeveralFiles Copy)) \<and>
         do_move os mw p fs = (fs, Some (SeveralFiles Move)) \<and>
         do_delete os mw p fs = (fs, Some (SeveralFiles Delete))"
proof -
  from assms(1) have "several_files (str_lower os) pattern"
    by (auto simp: several_files_sublist)
  with assms(2) show ?thesis
    by (simp add: do_copy_def do_move_def do_delete_def get_or_def Let_def)
qed

text \<open>The pattern \<open>a.txt AND b.txt\<close>, and the pattern \<open>two_names\<close> with the capital
  U+0418 between the names, are rejected.\<close>

theorem several_files_rejected_witness:
  "sublist '' and '' (str_lower mem_os ''a.txt AND b.txt'') \<and>
   do_copy mem_os window_AB [''pattern'' \<mapsto> ''a.txt AND b.txt'', ''from'' \<mapsto> ''left''] store_AB =
     (store_AB, Some (SeveralFiles Copy)) \<and>
   do_move mem_os window_AB [''pattern'' \<mapsto> ''a.txt AND b.txt'', ''from'' \<mapsto> ''left''] store_AB =
     (store_AB, Some (SeveralFiles Move)) \<and>
   do_delete mem_os window_AB [''pattern'' \<mapsto> ''a.txt AND b.txt'', ''from'' \<mapsto> ''left''] store_AB =
     (store_AB, Some (SeveralFiles Delete)) \<and>
   sublist cyrillic_and (str_lower russian_os two_names) \<and>
   do_copy russian_os window_AB [''pattern'' \<mapsto> two_names, ''from'' \<mapsto> ''left''] store_AB =
     (store_AB, Some (SeveralFiles Copy)) \<and>
   do_move russian_os window_AB [''pattern'' \<mapsto> two_names, ''from'' \<mapsto> ''left''] store_AB =
     (store_AB, Some (SeveralFiles Move)) \<and>
   do_delete russian_os window_AB [''pattern'' \<mapsto> two_names, ''from'' \<mapsto> ''left''] store_AB =
     (store_AB, Some (SeveralFiles Delete))"
  using several_files_rejected [where pattern = "''a.txt AND b.txt''"
      and p = "[''pattern'' \<mapsto> ''a.txt AND b.txt'', ''from'' \<mapsto> ''left'']"
      and os = mem_os and mw = window_AB and fs = store_AB]
    several_files_rejected [where pattern = two_names
      and p = "[''pattern'' \<mapsto> two_names, ''from'' \<mapsto> ''left'']"
      and os = russian_os and mw = window_AB and fs = store_AB]
  by (simp add: mem_os_def russian_os_def ascii_lower_def ascii_lower_chr_def set_bit5_def
      two_names_def cyrillic_and_def sublist_code prefix_code)

lemma copy_loop_no_match:
  "\<forall>i\<in>set items. \<not> fnmatch i pattern \<Longrightarrow>
   copy_loop os f t pattern items fs k = (fs, Inr k)"
  by (induction items) simp_all

text \<open>
  Claim C4, as amended. Copying \<open>*.txt\<close> from \<open>/A\<close> with \<open>a.txt\<close>, \<open>b.txt\<close> and
  \<open>c.log\<close> to the empty \<open>/B\<close> succeeds, leaves \<open>a.txt\<close> and \<open>b.txt\<close> in \<open>/B\<close> and
  leaves \<open>/A\<close> as it was. For every pattern that passes the check for several files
  and matches no entry of a source directory that can be listed, \<open>do_copy\<close> fails with
  the error that names the pattern, and the file system is as before.
\<close>

theorem copy_pattern:
  "(do_copy mem_os window_AB
      [''pattern'' \<mapsto> ''*.txt'', ''from'' \<mapsto> ''left'', ''to'' \<mapsto> ''right''] store_AB
      = (store_AB @ [([''B'', ''a.txt''], File ''alpha''), ([''B'', ''b.txt''], File ''beta'')],
         None)) \<and>
   names_in (store_AB @ [([''B'', ''a.txt''], File ''alpha''), ([''B'', ''b.txt''], File ''beta'')])
     [''B''] = [''a.txt'', ''b.txt''] \<and>
   subtree (store_AB @ [([''B'', ''a.txt''], File ''alpha''), ([''B'', ''b.txt''], File ''beta'')])
     [''A''] = subtree store_AB [''A''] \<and>
   (\<not> several_files (str_lower os) pattern \<longrightarrow> p ''pattern'' = Some pattern \<longrightarrow>
    os_listdir os fs (from_panel mw p) = Inr items \<longrightarrow>
    (\<forall>i\<in>set items. \<not> fnmatch i pattern) \<longrightarrow>
    do_copy os mw p fs = (fs, Some (NoMatch pattern)))"
proof (intro conjI impI)
  show "names_in (store_AB @ [([''B'', ''a.txt''], File ''alpha''), ([''B'', ''b.txt''], File ''beta'')])
     [''B''] = [''a.txt'', ''b.txt'']"
    by (simp add: names_in_def mem_listdir_def mem_isdir_def store_AB_def)
next
  show "subtree (store_AB @ [([''B'', ''a.txt''], File ''alpha''), ([''B'', ''b.txt''], File ''beta'')])
     [''A''] = subtree store_AB [''A'']"
    by (simp add: subtree_def is_below_def store_AB_def)
next
  show "do_copy mem_os window_AB
      [''pattern'' \<mapsto> ''*.txt'', ''from'' \<mapsto> ''left'', ''to'' \<mapsto> ''right''] store_AB
      = (store_AB @ [([''B'', ''a.txt''], File ''alpha''), ([''B'', ''b.txt''], File ''beta'')],
         None)"
    by (simp add: do_copy_def get_or_def several_files_def cyrillic_and_def ascii_lower_def
        ascii_lower_chr_def window_AB_def store_AB_def mem_os_def mem_listdir_def
        mem_isdir_def mem_exists_def fnmatch_def ord_def join_def mem_copy2_def
        mem_write_def from_panel_def to_panel_def copy_item_def dirname_def basename_def)
next
  assume "\<not> several_files (str_lower os) pattern" "p ''pattern'' = Some pattern"
    "os_listdir os fs (from_panel mw p) = Inr items"
    "\<forall>i\<in>set items. \<not> fnmatch i pattern"
  then show "do_copy os mw p fs = (fs, Some (NoMatch pattern))"
    by (simp add: do_copy_def get_or_def Let_def copy_loop_no_match)
qed

text \<open>No entry of \<open>/A\<close> matches \<open>*.pdf\<close>; and the name \<open>ya_txt\<close>, one letter before the
  extension, does not match \<open>??.txt\<close>.\<close>

theorem copy_pattern_witness:
  "\<not> several_files (str_lower mem_os) ''*.pdf'' \<and>
   os_listdir mem_os store_AB (from_panel window_AB [''pattern'' \<mapsto> ''*.pdf'', ''from'' \<mapsto> ''left''])
     = Inr [''a.txt'', ''b.txt'', ''c.log''] \<and>
   list_all (\<lambda>i. \<not> fnmatch i ''*.pdf'') [''a.txt'', ''b.txt'', ''c.log''] \<and>
   do_copy mem_os window_AB [''pattern'' \<mapsto> ''*.pdf'', ''from'' \<mapsto> ''left''] store_AB =
     (store_AB, Some (NoMatch ''*.pdf'')) \<and>
   \<not> fnmatch ya_txt ''??.txt'' \<and>
   do_copy russian_os window_AB [''pattern'' \<mapsto> ''??.txt'', ''from'' \<mapsto> ''left''] store_ya =
     (store_ya, Some (NoMatch ''??.txt''))"
  using copy_pattern [where pattern = "''*.pdf''"
      and p = "[''pattern'' \<mapsto> ''*.pdf'', ''from'' \<mapsto> ''left'']"
      and os = mem_os and mw = window_AB and fs = store_AB
      and items = "[''a.txt'', ''b.txt'', ''c.log'']"]
    copy_pattern [where pattern = "''??.txt''"
      and p = "[''pattern'' \<mapsto> ''??.txt'', ''from'' \<mapsto> ''left'']"
      and os = russian_os and mw = window_AB and fs = store_ya and items = "[ya_txt]"]
  by (simp add: several_files_def cyrillic_and_def ascii_lower_def ascii_lower_chr_def
      set_bit5_def fnmatch_def ord_def continuation_def low6_def ya_txt_def from_panel_def
      window_AB_def store_AB_def store_ya_def mem_os_def russian_os_def mem_listdir_def
      mem_isdir_def)

text \<open>
  The pattern \<open>x,y\<close> matches no entry of \<open>/A\<close>, and \<open>do_copy\<close> fails with the error for
  several files, not with the error for a pattern without a match.
\<close>

theorem copy_no_match_counterexample:
  "mem_listdir store_AB [''A''] = Inr [''a.txt'', ''b.txt'', ''c.log''] \<and>
   \<not> fnmatch ''a.txt'' ''x,y'' \<and> \<not> fnmatch ''b.txt'' ''x,y'' \<and> \<not> fnmatch ''c.log'' ''x,y'' \<and>
   do_copy mem_os window_AB
     [''pattern'' \<mapsto> ''x,y'', ''from'' \<mapsto> ''left'', ''to'' \<mapsto> ''right''] store_AB
     = (store_AB, Some (SeveralFiles Copy)) \<and>
   SeveralFiles Copy \<noteq> NoMatch ''x,y''"
  by (simp add: do_copy_def get_or_def several_files_def fnmatch_def ord_def store_AB_def
      mem_listdir_def mem_isdir_def)

lemma copy_loop_append:
  "copy_loop os f t pat (xs @ ys) fs k =
     (case copy_loop os f t pat xs fs k of
        (fs1, Inl e) \<Rightarrow> (fs1, Inl e)
      | (fs1, Inr k1) \<Rightarrow> copy_loop os f t pat ys fs1 k1)"
  by (induction xs arbitrary: fs k) (auto simp: Let_def split: prod.splits option.splits)

lemma move_loop_append:
  "move_loop os f t pat (xs @ ys) fs k =
     (case move_loop os f t pat xs fs k of
        (fs1, Inl e) \<Rightarrow> (fs1, Inl e)
      | (fs1, Inr k1) \<Rightarrow> move_loop os f t pat ys fs1 k1)"
  by (induction xs arbitrary: fs k) (auto simp: Let_def split: prod.splits option.splits)

lemma delete_loop_append:
  "delete_loop os d pat (xs @ ys) fs k =
     (case delete_loop os d pat xs fs k of
        (fs1, Inl e) \<Rightarrow> (fs1, Inl e)
      | (fs1, Inr k1) \<Rightarrow> delete_loop os d pat ys fs1 k1)"
  by (induction xs arbitrary: fs k) (auto simp: Let_def split: prod.splits option.splits)

text \<open>
  Claim C8. Let the source directory list the items \<open>pre\<close>, then \<open>x\<close>, then \<open>post\<close>,
  let the loop over \<open>pre\<close> succeed and leave the file system \<open>s\<close>, and let the action
  on the matching item \<open>x\<close> raise \<open>e\<close> and leave the file system \<open>s'\<close>. Then the
  operation ends with the one error that names \<open>x\<close> and \<open>e\<close>, in the file system
  \<open>s'\<close>: what was done for \<open>pre\<close> stays done, and the items of \<open>post\<close> play no part.
\<close>

theorem batch_stops_at_first_failure:
  assumes "get_or p ''pattern'' ''*'' = pattern"
    and "\<not> several_files (str_lower os) pattern"
    and "os_listdir os fs (from_panel mw p) = Inr (pre @ x # post)"
    and "fnmatch x pattern"
  shows
   "(copy_loop os (from_panel mw p) (to_panel mw p) pattern pre fs 0 = (c, Inr n) \<longrightarrow>
     copy_item os c (join (from_panel mw p) x) (join (to_panel mw p) x) = (c', Some e) \<longrightarrow>
     do_copy os mw p fs = (c', Some (ItemFailed Copy x e))) \<and>
    (move_loop os (from_panel mw p) (to_panel mw p) pattern pre fs 0 = (m, Inr n) \<longrightarrow>
     move os m (join (from_panel mw p) x) (join (to_panel mw p) x) = (m', Some e) \<longrightarrow>
     do_move os mw p fs = (m', Some (ItemFailed Move x e))) \<and>
    (delete_loop os (from_panel mw p) pattern pre fs 0 = (d, Inr n) \<longrightarrow>
     delete_item os d (join (from_panel mw p) x) = (d', Some e) \<longrightarrow>
     do_delete os mw p fs = (d', Some (ItemFailed Delete x e)))"
  using assms
  by (simp add: do_copy_def do_move_def do_delete_def Let_def copy_loop_append
      move_loop_append delete_loop_append)

text \<open>In \<open>/A\<close> the file \<open>b.txt\<close> is protected: \<open>a.txt\<close> is copied, moved or removed,
  \<open>b.txt\<close> fails, and \<open>c.log\<close> is left alone. And the protected file \<open>ya_txt\<close>, which
  the pattern \<open>?.txt\<close> selects, makes the removal fail.\<close>

theorem batch_stops_at_first_failure_witness:
  "get_or [''from'' \<mapsto> ''left'', ''to'' \<mapsto> ''right''] ''pattern'' ''*'' = ''*'' \<and>
   \<not> several_files (str_lower (deny ''b.txt'')) ''*'' \<and>
   os_listdir (deny ''b.txt'') store_AB [''A''] = Inr ([''a.txt''] @ ''b.txt'' # [''c.log'']) \<and>
   fnmatch ''b.txt'' ''*'' \<and>
   do_copy (deny ''b.txt'') window_AB [''from'' \<mapsto> ''left'', ''to'' \<mapsto> ''right''] store_AB =
     (store_AB @ [([''B'', ''a.txt''], File ''alpha'')],
      Some (ItemFailed Copy ''b.txt'' PermissionError)) \<and>
   do_move (deny ''b.txt'') window_AB [''from'' \<mapsto> ''left'', ''to'' \<mapsto> ''right''] store_AB =
     ([([''A''], Folder), ([''B''], Folder), ([''B'', ''a.txt''], File ''alpha''),
       ([''A'', ''b.txt''], File ''beta''), ([''A'', ''c.log''], File ''gamma'')],
      Some (ItemFailed Move ''b.txt'' PermissionError)) \<and>
   do_delete (deny ''b.txt'') window_AB [''from'' \<mapsto> ''left'', ''to'' \<mapsto> ''right''] store_AB =
     ([([''A''], Folder), ([''B''], Folder),
       ([''A'', ''b.txt''], File ''beta''), ([''A'', ''c.log''], File ''gamma'')],
      Some (ItemFailed Delete ''b.txt'' PermissionError)) \<and>
   fnmatch ya_txt ''?.txt'' \<and>
   do_delete (deny ya_txt) window_AB [''pattern'' \<mapsto> ''?.txt'', ''from'' \<mapsto> ''left''] store_ya =
     (store_ya, Some (ItemFailed Delete ya_txt PermissionError))"
  using batch_stops_at_first_failure [where p = "[''from'' \<mapsto> ''left'', ''to'' \<mapsto> ''right'']"
      and pattern = "''*''" and os = "deny ''b.txt''" and fs = store_AB and mw = window_AB
      and pre = "[''a.txt'']" and x = "''b.txt''" and post = "[''c.log'']" and n = 1
      and e = PermissionError
      and c = "store_AB @ [([''B'', ''a.txt''], File ''alpha'')]"
      and c' = "store_AB @ [([''B'', ''a.txt''], File ''alpha'')]"
      and m = "[([''A''], Folder), ([''B''], Folder), ([''B'', ''a.txt''], File ''alpha''),
       ([''A'', ''b.txt''], File ''beta''), ([''A'', ''c.log''], File ''gamma'')]"
      and m' = "[([''A''], Folder), ([''B''], Folder), ([''B'', ''a.txt''], File ''alpha''),
       ([''A'', ''b.txt''], File ''beta''), ([''A'', ''c.log''], File ''gamma'')]"
      and d = "[([''A''], Folder), ([''B''], Folder),
       ([''A'', ''b.txt''], File ''beta''), ([''A'', ''c.log''], File ''gamma'')]"
      and d' = "[([''A''], Folder), ([''B''], Folder),
       ([''A'', ''b.txt''], File ''beta''), ([''A'', ''c.log''], File ''gamma'')]"]
    batch_stops_at_first_failure
      [where p = "[''pattern'' \<mapsto> ''?.txt'', ''from'' \<mapsto> ''left'']"
      and pattern = "''?.txt''" and os = "deny ya_txt" and fs = store_ya and mw = window_AB
      and pre = "[]" and x = ya_txt and post = "[]" and n = 0 and e = PermissionError
      and d = store_ya and d' = store_ya]
  by (simp add: get_or_def several_files_def cyrillic_and_def ascii_lower_def
      ascii_lower_chr_def fnmatch_def ord_def continuation_def low6_def ya_txt_def deny_def
      mem_os_def mem_listdir_def mem_isdir_def mem_exists_def store_AB_def store_ya_def
      window_AB_def from_panel_def to_panel_def join_def basename_def dirname_def
      copy_item_def delete_item_def mem_copy2_def mem_write_def mem_move_def mem_rename_def
      mem_remove_def is_below_def rebase_def)

lemma copy_loop_star:
  "copy_loop os f t ''*'' items fs k = (fs', Inr k') \<longleftrightarrow>
     all_ok (copy_named os f t) fs items \<and> fs' = apply_all (copy_named os f t) fs items
     \<and> k' = k + length items"
proof (induction items arbitrary: fs k)
  case Nil
  then show ?case by auto
next
  case (Cons item items)
  show ?case
  proof (cases "copy_item os fs (join f item) (join t item)")
    case (Pair s r)
    then show ?thesis
      using Cons.IH [of s "k + 1"]
      by (cases r) (auto simp: fnmatch_star copy_named_def)
  qed
qed

lemma move_loop_star:
  "move_loop os f t ''*'' items fs k = (fs', Inr k') \<longleftrightarrow>
     all_ok (move_named os f t) fs items \<and> fs' = apply_all (move_named os f t) fs items
     \<and> k' = k + length items"
proof (induction items arbitrary: fs k)
  case Nil
  then show ?case by auto
next
  case (Cons item items)
  show ?case
  proof (cases "move os fs (join f item) (join t item)")
    case (Pair s r)
    then show ?thesis
      using Cons.IH [of s "k + 1"]
      by (cases r) (auto simp: fnmatch_star move_named_def)
  qed
qed

lemma delete_loop_star:
  "delete_loop os d ''*'' items fs k = (fs', Inr k') \<longleftrightarrow>
     all_ok (delete_named os d) fs items \<and> fs' = apply_all (delete_named os d) fs items
     \<and> k' = k + length items"
proof (induction items arbitrary: fs k)
  case Nil
  then show ?case by auto
next
  case (Cons item items)
  show ?case
  proof (cases "delete_item os fs (join d item)")
    case (Pair s r)
    then show ?thesis
      using Cons.IH [of s "k + 1"]
      by (cases r) (auto simp: fnmatch_star delete_named_def)
  qed
qed

lemma batch_result:
  "(case loop of (s, Inl e) \<Rightarrow> (s, Some e)
    | (s, Inr n) \<Rightarrow> if n = 0 then (s, Some (NoMatch pat)) else (s, None)) = (s', None)
   \<longleftrightarrow> (\<exists>n. loop = (s', Inr n) \<and> n \<noteq> (0::nat))"
  by (cases loop) (auto split: sum.splits)

text \<open>
  Claim C10. Let the parameters have no key \<open>pattern\<close>, and let \<open>str.lower\<close> leave the
  text \<open>*\<close> as it is. Then \<open>do_copy\<close>, \<open>do_move\<close> and \<open>do_delete\<close> do what they do for
  the pattern \<open>*\<close>, and \<open>*\<close> matches every name. When the source directory lists the
  items \<open>items\<close>, each of the three operations ends without an error exactly when
  there is an item and its action succeeds on every listed item in turn, and the file
  system is then the one that the action on every listed item, in their order, leaves.
\<close>

theorem missing_pattern_is_star:
  assumes "p ''pattern'' = None" and "str_lower os ''*'' = ''*''"
  shows "do_copy os mw p fs = do_copy os mw (p(''pattern'' \<mapsto> ''*'')) fs \<and>
         do_move os mw p fs = do_move os mw (p(''pattern'' \<mapsto> ''*'')) fs \<and>
         do_delete os mw p fs = do_delete os mw (p(''pattern'' \<mapsto> ''*'')) fs \<and>
         fnmatch name ''*'' \<and>
         (os_listdir os fs (from_panel mw p) = Inr items \<longrightarrow>
          (do_copy os mw p fs = (c, None) \<longleftrightarrow>
             items \<noteq> [] \<and> all_ok (copy_named os (from_panel mw p) (to_panel mw p)) fs items \<and>
             c = apply_all (copy_named os (from_panel mw p) (to_panel mw p)) fs items) \<and>
          (do_move os mw p fs = (m, None) \<longleftrightarrow>
             items \<noteq> [] \<and> all_ok (move_named os (from_panel mw p) (to_panel mw p)) fs items \<and>
             m = apply_all (move_named os (from_panel mw p) (to_panel mw p)) fs items) \<and>
          (do_delete os mw p fs = (d, None) \<longleftrightarrow>
             items \<noteq> [] \<and> all_ok (delete_named os (from_panel mw p)) fs items \<and>
             d = apply_all (delete_named os (from_panel mw p)) fs items))"
proof (intro conjI impI)
  have g: "get_or p ''pattern'' ''*'' = ''*''"
    using assms(1) by (simp add: get_or_def)
  have f: "from_panel mw (p(''pattern'' \<mapsto> ''*'')) = from_panel mw p"
    by (simp add: from_panel_def)
  have t: "to_panel mw (p(''pattern'' \<mapsto> ''*'')) = to_panel mw p"
    by (simp add: to_panel_def)
  have n: "\<not> several_files (str_lower os) ''*''"
    using assms(2) by (simp add: several_files_def cyrillic_and_def)
  show "do_copy os mw p fs = do_copy os mw (p(''pattern'' \<mapsto> ''*'')) fs"
    using assms(1) by (simp add: do_copy_def f t get_or_def)
  show "do_move os mw p fs = do_move os mw (p(''pattern'' \<mapsto> ''*'')) fs"
    using assms(1) by (simp add: do_move_def f t get_or_def)
  show "do_delete os mw p fs = do_delete os mw (p(''pattern'' \<mapsto> ''*'')) fs"
    using assms(1) by (simp add: do_delete_def f get_or_def)
  show "fnmatch name ''*''"
    by (rule fnmatch_star)
  assume l: "os_listdir os fs (from_panel mw p) = Inr items"
  show "do_copy os mw p fs = (c, None) \<longleftrightarrow>
      items \<noteq> [] \<and> all_ok (copy_named os (from_panel mw p) (to_panel mw p)) fs items \<and>
      c = apply_all (copy_named os (from_panel mw p) (to_panel mw p)) fs items"
    using l n by (auto simp: do_copy_def Let_def g batch_result copy_loop_star)
  show "do_move os mw p fs = (m, None) \<longleftrightarrow>
      items \<noteq> [] \<and> all_ok (move_named os (from_panel mw p) (to_panel mw p)) fs items \<and>
      m = apply_all (move_named os (from_panel mw p) (to_panel mw p)) fs items"
    using l n by (auto simp: do_move_def Let_def g batch_result move_loop_star)
  show "do_delete os mw p fs = (d, None) \<longleftrightarrow>
      items \<noteq> [] \<and> all_ok (delete_named os (from_panel mw p)) fs items \<and>
      d = apply_all (delete_named os (from_panel mw p)) fs items"
    using l n by (auto simp: do_delete_def Let_def g batch_result delete_loop_star)
qed

text \<open>Without a pattern, every entry of \<open>/A\<close> is copied to \<open>/B\<close>, or moved to \<open>/B\<close>, or
  removed, which leaves \<open>/A\<close> empty.\<close>

theorem missing_pattern_is_star_witness:
  "[''from'' \<mapsto> ''left'', ''to'' \<mapsto> ''right''] ''pattern'' = None \<and>
   str_lower mem_os ''*'' = ''*'' \<and>
   os_listdir mem_os store_AB (from_panel window_AB [''from'' \<mapsto> ''left'', ''to'' \<mapsto> ''right''])
     = Inr [''a.txt'', ''b.txt'', ''c.log''] \<and>
   do_copy mem_os window_AB [''from'' \<mapsto> ''left'', ''to'' \<mapsto> ''right''] store_AB =
     (store_AB @ [([''B'', ''a.txt''], File ''alpha''), ([''B'', ''b.txt''], File ''beta''),
        ([''B'', ''c.log''], File ''gamma'')], None) \<and>
   do_move mem_os window_AB [''from'' \<mapsto> ''left'', ''to'' \<mapsto> ''right''] store_AB =
     ([([''A''], Folder), ([''B''], Folder), ([''B'', ''a.txt''], File ''alpha''),
       ([''B'', ''b.txt''], File ''beta''), ([''B'', ''c.log''], File ''gamma'')], None) \<and>
   do_delete mem_os window_AB [''from'' \<mapsto> ''left'', ''to'' \<mapsto> ''right''] store_AB =
     ([([''A''], Folder), ([''B''], Folder)], None) \<and>
   names_in [([''A''], Folder), ([''B''], Folder)] [''A''] = []"
  using missing_pattern_is_star [where p = "[''from'' \<mapsto> ''left'', ''to'' \<mapsto> ''right'']"
      and os = mem_os and mw = window_AB and fs = store_AB
      and items = "[''a.txt'', ''b.txt'', ''c.log'']"
      and c = "store_AB @ [([''B'', ''a.txt''], File ''alpha''),
        ([''B'', ''b.txt''], File ''beta''), ([''B'', ''c.log''], File ''gamma'')]"
      and m = "[([''A''], Folder), ([''B''], Folder), ([''B'', ''a.txt''], File ''alpha''),
       ([''B'', ''b.txt''], File ''beta''), ([''B'', ''c.log''], File ''gamma'')]"
      and d = "[([''A''], Folder), ([''B''], Folder)]" and name = "''a.txt''"]
  by (simp add: do_copy_def do_move_def do_delete_def get_or_def several_files_def
      cyrillic_and_def fnmatch_def ord_def ascii_lower_def ascii_lower_chr_def
      mem_os_def mem_listdir_def mem_isdir_def mem_exists_def names_in_def
      store_AB_def window_AB_def from_panel_def to_panel_def join_def basename_def
      dirname_def copy_named_def move_named_def delete_named_def copy_item_def
      delete_item_def mem_copy2_def mem_write_def mem_move_def mem_rename_def
      mem_remove_def is_below_def rebase_def)

text \<open>
  Claim C2, as amended. On the in-memory file system, creating a folder under a name
  that is already a directory succeeds and changes nothing, and fails with
  \<open>FileExistsError\<close> when the name is a regular file. Creating a file under a name that
  is already a regular file succeeds and replaces its content by the new one, and
  fails with \<open>IsADirectoryError\<close> when the name is a directory.
\<close>

theorem create_on_existing_name:
  assumes "p ''name'' = Some name" and "target = join (active_path mw) name"
  shows
   "(mem_isdir t target \<longrightarrow> do_create_folder mem_os mw p t = (t, None)) \<and>
    (map_of t target = Some (File old) \<longrightarrow>
       do_create_folder mem_os mw p t = (t, Some (Raised FileExistsError))) \<and>
    (map_of t target = Some (File old) \<longrightarrow> mem_isdir t (active_path mw) \<longrightarrow>
       do_create_file mem_os mw p t =
         (AList.update target (File (get_or p ''content'' [])) t, None) \<and>
       map_of (AList.update target (File (get_or p ''content'' [])) t) target =
         Some (File (get_or p ''content'' []))) \<and>
    (mem_isdir t target \<longrightarrow>
       do_create_file mem_os mw p t = (t, Some (Raised IsADirectoryError)))"
proof -
  have n: "get_or p ''name'' d = name" for d
    using assms(1) by (simp add: get_or_def)
  have ne: "target \<noteq> []" and dn: "dirname target = active_path mw"
    using assms(2) by (simp_all add: join_def dirname_def)
  show ?thesis
    using ne dn assms(2)
    by (auto simp: do_create_folder_def do_create_file_def n Let_def mem_os_def
        mem_makedirs_def mem_write_def mem_isdir_def mem_exists_def update_conv')
qed

theorem create_on_existing_name_witness:
  "mem_isdir store_home (join (active_path window_home) ''docs'') \<and>
   do_create_folder mem_os window_home [''name'' \<mapsto> ''docs''] store_home = (store_home, None) \<and>
   do_create_file mem_os window_home [''name'' \<mapsto> ''docs''] store_home =
     (store_home, Some (Raised IsADirectoryError)) \<and>
   map_of store_home (join (active_path window_home) ''notes.txt'') = Some (File ''old'') \<and>
   mem_isdir store_home (active_path window_home) \<and>
   do_create_folder mem_os window_home [''name'' \<mapsto> ''notes.txt'', ''content'' \<mapsto> ''new'']
     store_home = (store_home, Some (Raised FileExistsError)) \<and>
   do_create_file mem_os window_home [''name'' \<mapsto> ''notes.txt'', ''content'' \<mapsto> ''new'']
     store_home =
     (AList.update [''home'', ''notes.txt''] (File ''new'') store_home, None)"
  using create_on_existing_name [where p = "[''name'' \<mapsto> ''docs'']" and name = "''docs''"
      and mw = window_home and t = store_home and target = "[''home'', ''docs'']"]
    create_on_existing_name
      [where p = "[''name'' \<mapsto> ''notes.txt'', ''content'' \<mapsto> ''new'']"
      and name = "''notes.txt''" and mw = window_home and t = store_home
      and target = "[''home'', ''notes.txt'']" and old = "''old''"]
  by (simp add: mem_isdir_def store_home_def window_home_def active_path_def join_def
      get_or_def)

text \<open>
  \<open>do_create_folder\<close> on the existing directory \<open>docs\<close> reports no error, and
  \<open>do_create_file\<close> on the existing file \<open>notes.txt\<close> reports no error and leaves the
  new content in place of the old one.
\<close>

theorem create_existing_counterexample:
  "mem_exists store_home [''home'', ''docs''] \<and>
   do_create_folder mem_os window_home [''name'' \<mapsto> ''docs''] store_home = (store_home, None) \<and>
   map_of store_home [''home'', ''notes.txt''] = Some (File ''old'') \<and>
   do_create_file mem_os window_home [''name'' \<mapsto> ''notes.txt'', ''content'' \<mapsto> ''new'']
     store_home =
     ([([''home''], Folder), ([''home'', ''docs''], Folder),
       ([''home'', ''docs'', ''x''], File ''1''), ([''home'', ''notes.txt''], File ''new'')],
      None)"
  by (simp add: do_create_folder_def do_create_file_def get_or_def mem_os_def
      mem_makedirs_def mem_write_def mem_isdir_def mem_exists_def store_home_def
      window_home_def active_path_def join_def dirname_def Let_def)

text \<open>
  Claim C1 on the code. The request is stored, and the service answers with the action
  \<open>teleport\<close>. The file system is unchanged, but the row of the request ends with the
  status \<open>success\<close> and without an error message: \<open>execute\<close> has no branch for an
  unknown action and goes on to report success.
\<close>

theorem unknown_action_reported_success:
  "file_system (on_response mem_os window_AB loads_teleport ''teleport'' True
      (send ''teleport my files'' ''now'' dialog_AB)) = store_AB \<and>
   map row_status (rows (db (on_response mem_os window_AB loads_teleport ''teleport'' True
      (send ''teleport my files'' ''now'' dialog_AB)))) = [success] \<and>
   map row_action (rows (db (on_response mem_os window_AB loads_teleport ''teleport'' True
      (send ''teleport my files'' ''now'' dialog_AB)))) = [Some ''teleport''] \<and>
   map error_message (rows (db (on_response mem_os window_AB loads_teleport ''teleport'' True
      (send ''teleport my files'' ''now'' dialog_AB)))) = [None]"
  by (simp add: on_response_def execute_def send_def strip_def is_space_def add_message_def
      update_current_def update_message_def update_row_def no_update_def dialog_AB_def
      init_database_def loads_teleport_def teleport_cmd_def Let_def)

end
